theory Spec2Isabelle
  imports Main "HOL-Library.Multiset"
begin

section \<open>JavaScript values\<close>

text \<open>
  The payloads the source managers and the collector hand around are plain JavaScript
  values.  Numbers are kept as integers plus \<open>NaN\<close>; an object is its list of
  properties, read by the first binding of a key.
\<close>

datatype jsval =
    JUndefined
  | JNull
  | JBool bool
  | JNum int
  | JNaN
  | JStr string
  | JArr "jsval list"
  | JObj "(string \<times> jsval) list"

type_synonym jsobj = "(string \<times> jsval) list"

datatype js_error = TypeError string | Error string

text \<open>\<open>!v\<close> is \<open>\<not> truthy v\<close>.\<close>

fun truthy :: "jsval \<Rightarrow> bool" where
  "truthy JUndefined = False"
| "truthy JNull = False"
| "truthy (JBool b) = b"
| "truthy (JNum n) = (n \<noteq> 0)"
| "truthy JNaN = False"
| "truthy (JStr s) = (s \<noteq> [])"
| "truthy (JArr xs) = True"
| "truthy (JObj ps) = True"

fun typeof :: "jsval \<Rightarrow> string" where
  "typeof JUndefined = ''undefined''"
| "typeof JNull = ''object''"
| "typeof (JBool b) = ''boolean''"
| "typeof (JNum n) = ''number''"
| "typeof JNaN = ''number''"
| "typeof (JStr s) = ''string''"
| "typeof (JArr xs) = ''object''"
| "typeof (JObj ps) = ''object''"

text \<open>Reading a named property of an object: \<open>undefined\<close> when the key is missing.\<close>

definition field :: "jsobj \<Rightarrow> string \<Rightarrow> jsval" where
  "field ps k = (case map_of ps k of None \<Rightarrow> JUndefined | Some v \<Rightarrow> v)"

text \<open>
  \<open>v.k\<close> for a non-index key \<open>k\<close>: a \<open>TypeError\<close> on \<open>undefined\<close> and \<open>null\<close>,
  the stored property on an object, \<open>undefined\<close> on an array and on the primitives.
\<close>

fun getProp :: "jsval \<Rightarrow> string \<Rightarrow> js_error + jsval" where
  "getProp JUndefined k =
     Inl (TypeError (''Cannot read properties of undefined (reading '' @ [CHR 0x27] @ k
                      @ [CHR 0x27] @ '')''))"
| "getProp JNull k =
     Inl (TypeError (''Cannot read properties of null (reading '' @ [CHR 0x27] @ k
                      @ [CHR 0x27] @ '')''))"
| "getProp (JObj ps) k = Inr (field ps k)"
| "getProp v k = Inr JUndefined"

section \<open>Intelligence validation\<close>

record validation =
  valid :: bool
  reason :: "string option"

text \<open>
  \<open>SourceManager.validateIntelligence(data)\<close>.  The second test reads
  \<open>data.collectionMethod\<close>; the model keeps the \<open>TypeError\<close> branch of that read.
\<close>

definition validateIntelligence :: "jsval \<Rightarrow> js_error + validation" where
  "validateIntelligence data =
     (if \<not> truthy data \<or> typeof data \<noteq> ''object''
      then Inr \<lparr>valid = False, reason = Some ''Invalid data structure''\<rparr>
      else case getProp data ''collectionMethod'' of
             Inl e \<Rightarrow> Inl e
           | Inr m \<Rightarrow>
               if \<not> truthy m
               then Inr \<lparr>valid = False, reason = Some ''Missing collection method''\<rparr>
               else Inr \<lparr>valid = True, reason = None\<rparr>)"

text \<open>A non-null value of type object: an object or an array.\<close>

fun isObject :: "jsval \<Rightarrow> bool" where
  "isObject (JObj ps) = True"
| "isObject (JArr xs) = True"
| "isObject v = False"

text \<open>The value of \<open>collectionMethod\<close> on such a value, \<open>None\<close> when the field is absent.\<close>

fun collectionMethodOf :: "jsval \<Rightarrow> jsval option" where
  "collectionMethodOf (JObj ps) = map_of ps ''collectionMethod''"
| "collectionMethodOf v = None"

section \<open>Source catalog\<close>

text \<open>
  The catalog document \<open>data/sources.json\<close>: categories keyed by search type, each with
  its list of source descriptors.  \<open>rateLimit\<close> and \<open>type\<close> are optional in the
  document.
\<close>

record source =
  source_id :: string
  name :: string
  confidence :: int
  enabled :: bool
  rateLimit :: "int option"
  source_type :: "string option"

record category =
  category_name :: string
  sources_cat :: "source list"

record settings =
  maxConcurrentRequests :: int
  defaultTimeout :: int
  retryAttempts :: int

record catalog =
  version :: string
  categories :: "(string \<times> category) list"
  settings :: settings

text \<open>
  Two builds of the application are modelled: the self-built analysis manager of
  \<open>components/source-manager.js\<close> with the aggregator that calls
  \<open>performOSINTSearch\<close>, and the real-intelligence manager that delegates to
  \<open>OSINTCollector\<close> with the aggregator that calls
  \<open>performRealIntelligenceGathering\<close>.  The managers share every catalog and cache
  operation.
\<close>

datatype build = SelfBuilt | RealIntelligence

definition getFallbackSources :: "build \<Rightarrow> catalog" where
  "getFallbackSources b =
     \<lparr>version = (case b of SelfBuilt \<Rightarrow> ''1.0'' | RealIntelligence \<Rightarrow> ''2.0''),
      categories =
        [(''email'', \<lparr>category_name = ''Email Intelligence'', sources_cat = []\<rparr>),
         (''domain'', \<lparr>category_name = ''Domain Intelligence'', sources_cat = []\<rparr>),
         (''username'', \<lparr>category_name = ''Username Intelligence'', sources_cat = []\<rparr>),
         (''ip'', \<lparr>category_name = ''IP Intelligence'', sources_cat = []\<rparr>)],
      settings =
        (case b of
           SelfBuilt \<Rightarrow> \<lparr>maxConcurrentRequests = 5, defaultTimeout = 10000, retryAttempts = 3\<rparr>
         | RealIntelligence \<Rightarrow>
             \<lparr>maxConcurrentRequests = 3, defaultTimeout = 10000, retryAttempts = 2\<rparr>)\<rparr>"

section \<open>Result envelopes and the source manager\<close>

text \<open>
  \<open>timestamp\<close> is the clock reading in milliseconds where the source formats
  \<open>new Date().toISOString()\<close>.  Every analysis of the sources returns an object
  literal, so \<open>data\<close> is an object.  \<open>dataType\<close> exists in the real-intelligence
  build only.
\<close>

record envelope =
  sourceId :: string
  sourceName :: string
  query :: string
  searchType :: string
  confidence_env :: int
  timestamp :: int
  data :: jsobj
  success :: bool
  dataType :: "string option"

text \<open>
  The manager object, together with the two things of its environment that its methods
  read or cause: \<open>clock\<close> is \<open>Date.now()\<close>, and \<open>handlerCalls\<close> records every
  dispatch to a source-specific analysis as (source id, query, start time).
\<close>

record manager =
  sources :: "catalog option"
  cache :: "string \<rightharpoonup> envelope"
  activeRequests :: "string set"
  initialized :: bool
  clock :: int
  handlerCalls :: "(string \<times> string \<times> int) list"

text \<open>
  What the model does not compute: how late a timer fires, what the body of a
  source-specific analysis yields when started at a given time (\<open>Inl msg\<close>: it throws
  an error with that message; \<open>Inr d\<close>: it returns the object \<open>d\<close>), how long it
  runs, and the random part of the simulated processing time.  \<open>analysis w\<close> takes the
  source id, the query, the search type (empty for the analyses that are not passed one)
  and the start time.
\<close>

record world =
  timerLag :: "int \<Rightarrow> nat"
  analysis :: "string \<Rightarrow> string \<Rightarrow> string \<Rightarrow> int \<Rightarrow> string + jsobj"
  latency :: "string \<Rightarrow> string \<Rightarrow> int \<Rightarrow> nat"
  jitter :: "int \<Rightarrow> nat"

text \<open>\<open>setTimeout(resolve, ms)\<close> armed at time \<open>t\<close> resolves at \<open>timer w ms t\<close>.\<close>

definition timer :: "world \<Rightarrow> int \<Rightarrow> int \<Rightarrow> int" where
  "timer w ms t = t + max 0 ms + int (timerLag w t)"

definition delay :: "world \<Rightarrow> int \<Rightarrow> manager \<Rightarrow> manager" where
  "delay w ms m = m\<lparr>clock := timer w ms (clock m)\<rparr>"

definition newManager :: "int \<Rightarrow> manager" where
  "newManager t =
     \<lparr>sources = None, cache = Map.empty, activeRequests = {}, initialized = False,
      clock = t, handlerCalls = []\<rparr>"

text \<open>
  \<open>initialize()\<close>: \<open>loadSources\<close> yields the fetched document, or the fallback when
  the fetch fails (\<open>doc = None\<close>).
\<close>

definition loadSources :: "build \<Rightarrow> catalog option \<Rightarrow> catalog" where
  "loadSources b doc = (case doc of Some c \<Rightarrow> c | None \<Rightarrow> getFallbackSources b)"

definition initialize :: "build \<Rightarrow> catalog option \<Rightarrow> manager \<Rightarrow> manager" where
  "initialize b doc m = m\<lparr>sources := Some (loadSources b doc), initialized := True\<rparr>"

text \<open>
  \<open>categories\<close> is a plain object, so \<open>categories[searchType]\<close> also finds what the
  object inherits from \<open>Object.prototype\<close>: a function, or the prototype itself for
  \<open>__proto__\<close>.  Such a value is truthy and has no \<open>sources\<close>, and
  \<open>category.sources.filter\<close> throws.
\<close>

definition objectPrototypeMembers :: "string list" where
  "objectPrototypeMembers =
     [''constructor'', ''__defineGetter__'', ''__defineSetter__'', ''hasOwnProperty'',
      ''__lookupGetter__'', ''__lookupSetter__'', ''isPrototypeOf'', ''propertyIsEnumerable'',
      ''toString'', ''valueOf'', ''__proto__'', ''toLocaleString'']"

definition getSourcesForType :: "manager \<Rightarrow> string \<Rightarrow> js_error + source list" where
  "getSourcesForType m ty =
     (if \<not> initialized m then Inr []
      else case sources m of
             None \<Rightarrow> Inr []
           | Some c \<Rightarrow>
               (case map_of (categories c) ty of
                  Some cat \<Rightarrow> Inr (filter enabled (sources_cat cat))
                | None \<Rightarrow>
                    if ty \<in> set objectPrototypeMembers
                    then Inl (TypeError ''Cannot read properties of undefined (reading 'filter')'')
                    else Inr []))"

definition getAllSources :: "manager \<Rightarrow> source list" where
  "getAllSources m =
     (if \<not> initialized m then []
      else case sources m of
             None \<Rightarrow> []
           | Some c \<Rightarrow> concat (map (\<lambda>(k, cat). filter enabled (sources_cat cat)) (categories c)))"

definition findSourceById :: "manager \<Rightarrow> string \<Rightarrow> source option" where
  "findSourceById m sid = find (\<lambda>s. source_id s = sid) (getAllSources m)"

definition performBasicAnalysis :: "string \<Rightarrow> source \<Rightarrow> jsobj" where
  "performBasicAnalysis q s =
     [(''found'', JBool True),
      (''query'', JStr q),
      (''message'', JStr (''Basic analysis completed by '' @ name s)),
      (''analysisType'', (case source_type s of None \<Rightarrow> JUndefined | Some ty \<Rightarrow> JStr ty)),
      (''confidence'', JNum (confidence s)),
      (''collectionMethod'', JStr ''Basic pattern analysis''),
      (''recommendation'', JStr ''Implement specific collector method for enhanced results'')]"

text \<open>
  Three collector methods wrap their whole body in \<open>try\<close>/\<open>catch\<close> and return the
  failure as data: \<open>{found: false, domain, error: error.message}\<close> (\<open>ip\<close> in place of
  \<open>domain\<close> for the geolocation).  They never throw.
\<close>

definition getCertificateData :: "world \<Rightarrow> string \<Rightarrow> int \<Rightarrow> jsobj" where
  "getCertificateData w domain t =
     (case analysis w ''certificate_intelligence'' domain [] t of
        Inr d \<Rightarrow> d
      | Inl msg \<Rightarrow> [(''found'', JBool False), (''domain'', JStr domain), (''error'', JStr msg)])"

definition getDNSRecords :: "world \<Rightarrow> string \<Rightarrow> int \<Rightarrow> jsobj" where
  "getDNSRecords w domain t =
     (case analysis w ''dns_intelligence'' domain [] t of
        Inr d \<Rightarrow> d
      | Inl msg \<Rightarrow> [(''found'', JBool False), (''domain'', JStr domain), (''error'', JStr msg)])"

definition getIPGeolocation :: "world \<Rightarrow> string \<Rightarrow> int \<Rightarrow> jsobj" where
  "getIPGeolocation w ip t =
     (case analysis w ''ip_intelligence'' ip [] t of
        Inr d \<Rightarrow> d
      | Inl msg \<Rightarrow> [(''found'', JBool False), (''ip'', JStr ip), (''error'', JStr msg)])"

text \<open>
  \<open>performRealIntelligenceGathering(source, query, searchType)\<close> of the manager: the
  whole body is one \<open>try\<close>; the \<open>catch\<close> builds the failure envelope.
  \<open>checkSocialPresence\<close>, \<open>analyzeEmail\<close> and \<open>searchEngineIntelligence\<close> have no
  \<open>catch\<close> of their own: what they throw arrives here.
\<close>

definition performRealIntelligenceGathering ::
  "world \<Rightarrow> manager \<Rightarrow> source \<Rightarrow> string \<Rightarrow> string \<Rightarrow> envelope \<times> manager" where
  "performRealIntelligenceGathering w m s q ty =
     (let t0 = clock m;
          m1 = m\<lparr>handlerCalls := handlerCalls m @ [(source_id s, q, t0)]\<rparr>;
          intelligenceData =
            (if source_id s = ''certificate_intelligence'' then Inr (getCertificateData w q t0)
             else if source_id s = ''dns_intelligence'' then Inr (getDNSRecords w q t0)
             else if source_id s = ''social_intelligence''
               then analysis w ''social_intelligence'' q [] t0
             else if source_id s = ''email_intelligence''
               then analysis w ''email_intelligence'' q [] t0
             else if source_id s = ''ip_intelligence'' then Inr (getIPGeolocation w q t0)
             else if source_id s = ''search_intelligence''
               then analysis w ''search_intelligence'' q ty t0
             else Inr (performBasicAnalysis q s));
          m2 = m1\<lparr>clock := t0 + int (latency w (source_id s) q t0)\<rparr>
      in case intelligenceData of
           Inr d \<Rightarrow>
             (\<lparr>sourceId = source_id s, sourceName = name s, query = q, searchType = ty,
               confidence_env = confidence s, timestamp = clock m2, data = d,
               success = True, dataType = Some ''real_intelligence''\<rparr>, m2)
         | Inl msg \<Rightarrow>
             (\<lparr>sourceId = source_id s, sourceName = name s, query = q, searchType = ty,
               confidence_env = confidence s, timestamp = clock m2,
               data = [(''found'', JBool False), (''error'', JStr msg), (''query'', JStr q),
                       (''collectionMethod'', JStr ''Error handling'')],
               success = False, dataType = Some ''error''\<rparr>, m2))"

text \<open>
  \<open>performSelfBuiltAnalysis(source, query, searchType)\<close>: a simulated processing time
  of \<open>300 + Math.random() * 700\<close> ms, then the analysis inside \<open>try\<close>/\<open>catch\<close>.
  Each branch of its \<open>switch\<close> on \<open>source.id\<close>, the default one included, is an
  analysis of the query alone drawing on \<open>Math.random()\<close>: all of them are read from
  \<open>analysis w\<close>.
\<close>

definition performSelfBuiltAnalysis ::
  "world \<Rightarrow> manager \<Rightarrow> source \<Rightarrow> string \<Rightarrow> string \<Rightarrow> envelope \<times> manager" where
  "performSelfBuiltAnalysis w m s q ty =
     (let m0 = delay w (300 + int (jitter w (clock m) mod 700)) m;
          t0 = clock m0;
          m1 = m0\<lparr>handlerCalls := handlerCalls m0 @ [(source_id s, q, t0)]\<rparr>;
          analysisResult = analysis w (source_id s) q [] t0;
          m2 = m1\<lparr>clock := t0 + int (latency w (source_id s) q t0)\<rparr>
      in case analysisResult of
           Inr d \<Rightarrow>
             (\<lparr>sourceId = source_id s, sourceName = name s, query = q, searchType = ty,
               confidence_env = confidence s, timestamp = clock m2, data = d,
               success = True, dataType = None\<rparr>, m2)
         | Inl msg \<Rightarrow>
             (\<lparr>sourceId = source_id s, sourceName = name s, query = q, searchType = ty,
               confidence_env = confidence s, timestamp = clock m2,
               data = [(''found'', JBool False), (''error'', JStr msg), (''query'', JStr q)],
               success = False, dataType = None\<rparr>, m2))"

text \<open>
  The wait of \<open>querySource\<close> when a request to the same source is in flight:
  \<open>source.rateLimit || 1000\<close> in the self-built build, a fixed 2000 ms in the other.
\<close>

definition inFlightDelay :: "build \<Rightarrow> source \<Rightarrow> int" where
  "inFlightDelay b s =
     (case b of
        SelfBuilt \<Rightarrow> (case rateLimit s of None \<Rightarrow> 1000 | Some r \<Rightarrow> if r = 0 then 1000 else r)
      | RealIntelligence \<Rightarrow> 2000)"

text \<open>
  \<open>querySource(sourceId, query, searchType)\<close>, one call run to completion.  The
  \<open>throw\<close> for an unknown id is the \<open>Inl\<close> result; the \<open>finally\<close> clause removes the
  in-flight mark.
\<close>

definition querySource ::
  "world \<Rightarrow> build \<Rightarrow> manager \<Rightarrow> string \<Rightarrow> string \<Rightarrow> string \<Rightarrow> (js_error + envelope) \<times> manager" where
  "querySource w b m sid q ty =
     (case findSourceById m sid of
        None \<Rightarrow> (Inl (Error (''Source not found: '' @ sid)), m)
      | Some s \<Rightarrow>
          (let cacheKey = sid @ '':'' @ q in
           case cache m cacheKey of
             Some cached \<Rightarrow> (Inr cached, m)
           | None \<Rightarrow>
               (let m1 = (if sid \<in> activeRequests m then delay w (inFlightDelay b s) m else m);
                    m2 = m1\<lparr>activeRequests := insert sid (activeRequests m1)\<rparr>;
                    (result, m3) =
                      (case b of
                         SelfBuilt \<Rightarrow> performSelfBuiltAnalysis w m2 s q ty
                       | RealIntelligence \<Rightarrow> performRealIntelligenceGathering w m2 s q ty);
                    m4 = m3\<lparr>cache := (cache m3)(cacheKey \<mapsto> result)\<rparr>
                in (Inr result, m4\<lparr>activeRequests := activeRequests m4 - {sid}\<rparr>))))"


section \<open>Retry with linear backoff\<close>

text \<open>
  What a retry loop did, in order: each invocation of the wrapped function and each
  backoff wait with its length in milliseconds.
\<close>

datatype retry_event = Invoked | Waited int



text \<open>
  The loop of \<open>querySourceWithRetry\<close>, from attempt number \<open>attempt\<close> on:
  \<^verbatim>\<open>for (let attempt = 1; attempt <= maxRetries; attempt++) {
      try { return await fn(); }
      catch (error) { if (attempt === maxRetries) throw error;
                      await delay(base * attempt); } }\<close>
  \<open>fn\<close> and \<open>wait\<close> act on a state of any type.  The result \<open>Inr None\<close> is the
  \<open>undefined\<close> the function returns when the loop body never runs.
\<close>

function retryFrom ::
  "int \<Rightarrow> (int \<Rightarrow> 's \<Rightarrow> 's) \<Rightarrow> ('s \<Rightarrow> (js_error + 'a) \<times> 's) \<Rightarrow> int \<Rightarrow> int \<Rightarrow> 's
     \<Rightarrow> (js_error + 'a option) \<times> 's \<times> retry_event list" where
  "retryFrom base wait fn maxRetries attempt s =
     (if attempt \<le> maxRetries then
        (case fn s of
           (Inr v, s') \<Rightarrow> (Inr (Some v), s', [Invoked])
         | (Inl e, s') \<Rightarrow>
             if attempt = maxRetries then (Inl e, s', [Invoked])
             else (case retryFrom base wait fn maxRetries (attempt + 1) (wait (base * attempt) s') of
                     (r, s'', tr) \<Rightarrow> (r, s'', Invoked # Waited (base * attempt) # tr)))
      else (Inr None, s, []))"
  by pat_completeness auto
termination
  by (relation "measure (\<lambda>(base, wait, fn, maxRetries, attempt, s). nat (maxRetries + 1 - attempt))")
     auto

text \<open>
  The loop of \<open>OSINTCollector.fetchWithRetry\<close>, from index \<open>i\<close> on:
  \<^verbatim>\<open>for (let i = 0; i < maxRetries; i++) {
      try { return await fetch(...); }
      catch (error) { if (i === maxRetries - 1) throw error;
                      await this.delay(1000 * (i + 1)); } }\<close>
\<close>

function fetchFrom ::
  "(int \<Rightarrow> 's \<Rightarrow> 's) \<Rightarrow> ('s \<Rightarrow> (js_error + 'a) \<times> 's) \<Rightarrow> int \<Rightarrow> int \<Rightarrow> 's
     \<Rightarrow> (js_error + 'a option) \<times> 's \<times> retry_event list" where
  "fetchFrom wait fetch maxRetries i s =
     (if i < maxRetries then
        (case fetch s of
           (Inr response, s') \<Rightarrow> (Inr (Some response), s', [Invoked])
         | (Inl e, s') \<Rightarrow>
             if i = maxRetries - 1 then (Inl e, s', [Invoked])
             else (case fetchFrom wait fetch maxRetries (i + 1) (wait (1000 * (i + 1)) s') of
                     (r, s'', tr) \<Rightarrow> (r, s'', Invoked # Waited (1000 * (i + 1)) # tr)))
      else (Inr None, s, []))"
  by pat_completeness auto
termination
  by (relation "measure (\<lambda>(wait, fetch, maxRetries, i, s). nat (maxRetries - i))") auto

declare retryFrom.simps [simp del] fetchFrom.simps [simp del]


text \<open>
  \<open>OSINTAggregator.querySourceWithRetry\<close> wraps \<open>sourceManager.querySource\<close>; the
  backoff base is 1000 ms in the earlier aggregator and 2000 ms in the
  real-intelligence one.
\<close>

definition backoffBase :: "build \<Rightarrow> int" where
  "backoffBase b = (case b of SelfBuilt \<Rightarrow> 1000 | RealIntelligence \<Rightarrow> 2000)"

definition querySourceWithRetry ::
  "world \<Rightarrow> build \<Rightarrow> manager \<Rightarrow> string \<Rightarrow> string \<Rightarrow> string \<Rightarrow> int
     \<Rightarrow> (js_error + envelope option) \<times> manager \<times> retry_event list" where
  "querySourceWithRetry w b m sid q ty maxRetries =
     retryFrom (backoffBase b) (delay w) (\<lambda>m'. querySource w b m' sid q ty) maxRetries 1 m"

section \<open>The collector's cache and rate limiter\<close>

record cache_entry =
  data_ce :: jsval
  timestamp_ce :: int

record collector =
  cache_col :: "string \<rightharpoonup> cache_entry"
  rateLimits :: "string \<rightharpoonup> int"
  clock_col :: int

definition delay_col :: "world \<Rightarrow> int \<Rightarrow> collector \<Rightarrow> collector" where
  "delay_col w ms c = c\<lparr>clock_col := timer w ms (clock_col c)\<rparr>"

text \<open>
  \<open>rateLimit(service, minInterval)\<close> in its two synchronous parts.  The first reads
  the clock and the last grant (\<open>this.rateLimits.get(service) || 0\<close> is 0 for a service
  never granted) and yields the time to wait, if any.  The second,
  \<open>this.rateLimits.set(service, Date.now())\<close>, records the grant at the clock of the
  moment it runs.  Between them the caller is suspended for the wait, and other callers
  may run.
\<close>

definition rateLimitWait :: "collector \<Rightarrow> string \<Rightarrow> int \<Rightarrow> int option" where
  "rateLimitWait c service minInterval =
     (let now = clock_col c;
          lastRequest = (case rateLimits c service of None \<Rightarrow> 0 | Some t \<Rightarrow> t);
          timeSinceLastRequest = now - lastRequest
      in if timeSinceLastRequest < minInterval
         then Some (minInterval - timeSinceLastRequest) else None)"

definition rateLimitRecord :: "collector \<Rightarrow> string \<Rightarrow> collector" where
  "rateLimitRecord c service = c\<lparr>rateLimits := (rateLimits c)(service \<mapsto> clock_col c)\<rparr>"

text \<open>A call of \<open>rateLimit\<close> during whose wait nothing else touches the collector.\<close>

definition rateLimit_col :: "world \<Rightarrow> collector \<Rightarrow> string \<Rightarrow> int \<Rightarrow> collector" where
  "rateLimit_col w c service minInterval =
     (case rateLimitWait c service minInterval of
        None \<Rightarrow> rateLimitRecord c service
      | Some waitTime \<Rightarrow> rateLimitRecord (delay_col w waitTime c) service)"

definition getCached :: "collector \<Rightarrow> string \<Rightarrow> jsval" where
  "getCached c key =
     (case cache_col c key of
        None \<Rightarrow> JNull
      | Some cached \<Rightarrow>
          if clock_col c - timestamp_ce cached < 3600000 then data_ce cached else JNull)"

definition setCached :: "collector \<Rightarrow> string \<Rightarrow> jsval \<Rightarrow> collector" where
  "setCached c key d =
     c\<lparr>cache_col := (cache_col c)(key \<mapsto> \<lparr>data_ce = d, timestamp_ce = clock_col c\<rparr>)\<rparr>"

section \<open>The aggregator\<close>

record report_summary =
  totalSources :: nat
  successfulSources :: nat
  failedSources :: nat
  dataFound :: bool

record report =
  query_rep :: string
  searchType_rep :: string
  timestamp_rep :: int
  sources_rep :: "envelope list"
  summary :: report_summary

text \<open>What the \<open>searchResults\<close> element shows.\<close>

datatype view = Blank | Loading | ErrorMessage string | Results

text \<open>
  \<open>currentResults\<close> is \<open>None\<close> while it is the \<open>{}\<close> the constructor assigns.
\<close>

record aggregator =
  currentQuery :: string
  currentResults :: "report option"
  sourceManager :: manager
  searchResults :: view

definition newAggregator :: "manager \<Rightarrow> aggregator" where
  "newAggregator m =
     \<lparr>currentQuery = [], currentResults = None, sourceManager = m, searchResults = Blank\<rparr>"

text \<open>An element of the array \<open>Promise.allSettled\<close> resolves to.\<close>

datatype settled = Fulfilled envelope | Rejected js_error

text \<open>The body of the \<open>results.forEach\<close> callback.\<close>

fun processResult :: "report \<Rightarrow> settled \<Rightarrow> report" where
  "processResult r (Fulfilled v) =
     (if success v then
        (let r1 = r\<lparr>sources_rep := sources_rep r @ [v]\<rparr>;
             r2 = r1\<lparr>summary := (summary r1)\<lparr>successfulSources := successfulSources (summary r1) + 1\<rparr>\<rparr>
         in if truthy (field (data v) ''found'')
            then r2\<lparr>summary := (summary r2)\<lparr>dataFound := True\<rparr>\<rparr>
            else r2)
      else r\<lparr>summary := (summary r)\<lparr>failedSources := failedSources (summary r) + 1\<rparr>\<rparr>)"
| "processResult r (Rejected e) =
     r\<lparr>summary := (summary r)\<lparr>failedSources := failedSources (summary r) + 1\<rparr>\<rparr>"

definition processResults :: "report \<Rightarrow> settled list \<Rightarrow> report" where
  "processResults r results = foldl processResult r results"

definition showError :: "aggregator \<Rightarrow> string \<Rightarrow> aggregator" where
  "showError a message = a\<lparr>searchResults := ErrorMessage message\<rparr>"

text \<open>
  The fan-out runs one \<open>querySourceWithRetry\<close> per available source, interleaved at
  their waits.  The run only reads what \<open>Promise.allSettled\<close> delivers: one settled
  outcome per source, in the order of \<open>availableSources\<close>.  \<open>settle i s\<close> is the
  outcome for the source \<open>s\<close> at index \<open>i\<close>, \<open>managerAfter\<close> the source manager
  once all of them have settled.
\<close>

record fanout =
  settle :: "nat \<Rightarrow> source \<Rightarrow> settled"
  managerAfter :: manager

text \<open>
  \<open>performOSINTSearch(query, searchType)\<close> of the earlier aggregator (build
  \<open>SelfBuilt\<close>) and \<open>performRealIntelligenceGathering(query, searchType)\<close> of the later
  one (build \<open>RealIntelligence\<close>): the same function but for the staggered dispatch,
  which only shifts when the outcomes settle, and the wording of the error message.
  It returns nothing: the report is \<open>this.currentResults\<close>.

  The function suspends once, at \<open>await Promise.allSettled\<close>.  \<open>beginSearch\<close> is
  what runs before: the lookup of the sources, the guard, and the assignment of a new
  report to \<open>this.currentResults\<close>.  \<open>finishSearch\<close> is what runs after: the
  \<open>forEach\<close> counts the outcomes into whatever \<open>this.currentResults\<close> holds by
  then, and the result is displayed.  On the empty object of the constructor the first
  property read of a callback, or of the display when there is no outcome, throws.
\<close>

definition noSourcesMessage :: "build \<Rightarrow> string \<Rightarrow> string" where
  "noSourcesMessage b ty =
     (case b of
        SelfBuilt \<Rightarrow> ''No sources available for '' @ ty @ '' searches''
      | RealIntelligence \<Rightarrow> ''No intelligence sources available for '' @ ty @ '' searches'')"

datatype started = NoSources aggregator | Dispatched aggregator "source list"

definition beginSearch :: "build \<Rightarrow> aggregator \<Rightarrow> string \<Rightarrow> string \<Rightarrow> js_error + started" where
  "beginSearch b a q ty =
     (case getSourcesForType (sourceManager a) ty of
        Inl e \<Rightarrow> Inl e
      | Inr availableSources \<Rightarrow>
          if length availableSources = 0
          then Inr (NoSources (showError a (noSourcesMessage b ty)))
          else Inr (Dispatched
                 (a\<lparr>currentResults :=
                      Some \<lparr>query_rep = q, searchType_rep = ty,
                            timestamp_rep = clock (sourceManager a), sources_rep = [],
                            summary = \<lparr>totalSources = length availableSources,
                                       successfulSources = 0, failedSources = 0,
                                       dataFound = False\<rparr>\<rparr>\<rparr>)
                 availableSources))"

definition finishSearch :: "aggregator \<Rightarrow> settled list \<Rightarrow> js_error + aggregator" where
  "finishSearch a results =
     (case currentResults a of
        None \<Rightarrow>
          Inl (TypeError
                (case results of
                   [] \<Rightarrow> ''Cannot read properties of undefined (reading 'charAt')''
                 | Fulfilled v # rest \<Rightarrow>
                     if success v
                     then ''Cannot read properties of undefined (reading 'push')''
                     else ''Cannot read properties of undefined (reading 'failedSources')''
                 | Rejected e # rest \<Rightarrow>
                     ''Cannot read properties of undefined (reading 'failedSources')''))
      | Some r \<Rightarrow>
          Inr (a\<lparr>currentResults := Some (processResults r results), searchResults := Results\<rparr>))"

text \<open>
  A run during whose fan-out nothing but its own queries touches the aggregator.
\<close>

definition performOSINTSearch ::
  "build \<Rightarrow> fanout \<Rightarrow> aggregator \<Rightarrow> string \<Rightarrow> string \<Rightarrow> js_error + aggregator" where
  "performOSINTSearch b f a q ty =
     (case beginSearch b a q ty of
        Inl e \<Rightarrow> Inl e
      | Inr (NoSources a') \<Rightarrow> Inr a'
      | Inr (Dispatched a1 availableSources) \<Rightarrow>
          finishSearch (a1\<lparr>sourceManager := managerAfter f\<rparr>)
            (map (\<lambda>(i, s). settle f i s) (enumerate 0 availableSources)))"

section \<open>Vocabulary of the properties\<close>


text \<open>
  Names for two stages of a cache miss in \<open>querySource\<close>: the state in which the
  analysis starts, and the analysis of the build.
\<close>

definition admitted :: "world \<Rightarrow> build \<Rightarrow> manager \<Rightarrow> source \<Rightarrow> manager" where
  "admitted w b m s =
     (let m1 = (if source_id s \<in> activeRequests m then delay w (inFlightDelay b s) m else m)
      in m1\<lparr>activeRequests := insert (source_id s) (activeRequests m1)\<rparr>)"

definition analyse ::
  "world \<Rightarrow> build \<Rightarrow> manager \<Rightarrow> source \<Rightarrow> string \<Rightarrow> string \<Rightarrow> envelope \<times> manager" where
  "analyse w b m s q ty =
     (case b of
        SelfBuilt \<Rightarrow> performSelfBuiltAnalysis w m s q ty
      | RealIntelligence \<Rightarrow> performRealIntelligenceGathering w m s q ty)"

text \<open>
  When the analysis of an uncached query starts: after the wait for a request in flight,
  if there is one, and after the simulated processing time in the self-built build.
\<close>

definition startTime :: "world \<Rightarrow> build \<Rightarrow> manager \<Rightarrow> source \<Rightarrow> int" where
  "startTime w b m s =
     (let t1 = (if source_id s \<in> activeRequests m
                then timer w (inFlightDelay b s) (clock m) else clock m)
      in case b of
           SelfBuilt \<Rightarrow> timer w (300 + int (jitter w t1 mod 700)) t1
         | RealIntelligence \<Rightarrow> t1)"




text \<open>The report a run leaves when it returns; none when it raises.\<close>

definition reportAfter :: "js_error + aggregator \<Rightarrow> report option" where
  "reportAfter r = (case r of Inl e \<Rightarrow> None | Inr a \<Rightarrow> currentResults a)"

text \<open>The settled outcomes the summary counts as successful, and those with data found.\<close>

fun fulfilledOk :: "settled \<Rightarrow> bool" where
  "fulfilledOk (Fulfilled v) = success v"
| "fulfilledOk (Rejected e) = False"

fun foundData :: "settled \<Rightarrow> bool" where
  "foundData (Fulfilled v) = (success v \<and> truthy (field (data v) ''found''))"
| "foundData (Rejected e) = False"

fun successes :: "settled list \<Rightarrow> envelope list" where
  "successes [] = []"
| "successes (Fulfilled v # rs) = (if success v then v # successes rs else successes rs)"
| "successes (Rejected e # rs) = successes rs"

section \<open>Example inputs\<close>

definition emailSource :: source where
  "emailSource =
     \<lparr>source_id = ''email_intelligence'', name = ''Email Analysis'', confidence = 85,
      enabled = True, rateLimit = Some 1000, source_type = Some ''analysis''\<rparr>"

definition dnsSource :: source where
  "dnsSource =
     \<lparr>source_id = ''dns_analyzer'', name = ''DNS Analyzer'', confidence = 90,
      enabled = True, rateLimit = Some 1000, source_type = Some ''dns''\<rparr>"

definition certSource :: source where
  "certSource =
     \<lparr>source_id = ''certificate_intelligence'', name = ''Certificate Transparency'',
      confidence = 95, enabled = True, rateLimit = Some 1000, source_type = Some ''certificate''\<rparr>"

definition exampleCatalog :: catalog where
  "exampleCatalog =
     \<lparr>version = ''2.0'',
      categories =
        [(''email'', \<lparr>category_name = ''Email Intelligence'', sources_cat = [emailSource]\<rparr>),
         (''domain'',
          \<lparr>category_name = ''Domain Intelligence'',
           sources_cat =
             [dnsSource, certSource,
              \<lparr>source_id = ''whois_lookup'', name = ''Registration Lookup'', confidence = 70,
               enabled = False, rateLimit = None, source_type = Some ''registration''\<rparr>]\<rparr>)],
      settings = \<lparr>maxConcurrentRequests = 3, defaultTimeout = 10000, retryAttempts = 2\<rparr>\<rparr>"

definition exampleManager :: "build \<Rightarrow> manager" where
  "exampleManager b = initialize b (Some exampleCatalog) (newManager 0)"

text \<open>A manager whose catalog failed to load: the fallback, with four empty categories.\<close>

definition fallbackManager :: manager where
  "fallbackManager = initialize RealIntelligence None (newManager 0)"

text \<open>
  A world of punctual timers in which every analysis takes 5 ms and has the same outcome.
\<close>

definition steadyWorld :: "string + jsobj \<Rightarrow> world" where
  "steadyWorld out =
     \<lparr>timerLag = (\<lambda>t. 0), analysis = (\<lambda>sid q ty t. out),
      latency = (\<lambda>sid q t. 5), jitter = (\<lambda>t. 0)\<rparr>"

definition okWorld :: world where
  "okWorld =
     steadyWorld (Inr [(''found'', JBool True), (''collectionMethod'', JStr ''Pattern analysis'')])"

text \<open>
  \<open>analyzeEmail\<close> of a target without \<open>@\<close> throws on \<open>domain.split\<close>.
\<close>

definition failingWorld :: world where
  "failingWorld = steadyWorld (Inl ''Cannot read properties of undefined (reading 'split')'')"



definition foundEnvelope :: envelope where
  "foundEnvelope =
     \<lparr>sourceId = ''email_intelligence'', sourceName = ''Email Analysis'', query = ''a@b.co'',
      searchType = ''email'', confidence_env = 85, timestamp = 5,
      data = [(''found'', JBool True), (''collectionMethod'', JStr ''Pattern analysis'')],
      success = True, dataType = Some ''real_intelligence''\<rparr>"

definition failedEnvelope :: envelope where
  "failedEnvelope =
     \<lparr>sourceId = ''email_intelligence'', sourceName = ''Email Analysis'', query = ''nobody'',
      searchType = ''email'', confidence_env = 85, timestamp = 5,
      data = [(''found'', JBool False),
              (''error'', JStr ''Cannot read properties of undefined (reading 'split')''),
              (''query'', JStr ''nobody''),
              (''collectionMethod'', JStr ''Error handling'')],
      success = False, dataType = Some ''error''\<rparr>"

text \<open>The manager after the first query for \<open>a@b.co\<close>.\<close>

definition cachedManager :: manager where
  "cachedManager =
     snd (querySource okWorld RealIntelligence (exampleManager RealIntelligence)
            ''email_intelligence'' ''a@b.co'' ''email'')"

text \<open>Fan-outs over the single email source of the example catalog.\<close>

definition failedFanout :: fanout where
  "failedFanout =
     \<lparr>settle = (\<lambda>i s. Fulfilled failedEnvelope),
      managerAfter =
        fst (snd (querySourceWithRetry failingWorld RealIntelligence
                    (exampleManager RealIntelligence) ''email_intelligence'' ''nobody'' ''email'' 2))\<rparr>"

definition foundFanout :: fanout where
  "foundFanout = \<lparr>settle = (\<lambda>i s. Fulfilled foundEnvelope), managerAfter = cachedManager\<rparr>"

text \<open>
  The report \<open>beginSearch\<close> assigns for a query of the email source, and the
  aggregator holding it.
\<close>

definition freshReport :: "string \<Rightarrow> report" where
  "freshReport q =
     \<lparr>query_rep = q, searchType_rep = ''email'', timestamp_rep = 0, sources_rep = [],
      summary = \<lparr>totalSources = 1, successfulSources = 0, failedSources = 0,
                 dataFound = False\<rparr>\<rparr>"

definition startedAggregator :: "string \<Rightarrow> aggregator" where
  "startedAggregator q =
     (newAggregator (exampleManager RealIntelligence))\<lparr>currentResults := Some (freshReport q)\<rparr>"

definition failedReport :: report where
  "failedReport =
     \<lparr>query_rep = ''nobody'', searchType_rep = ''email'', timestamp_rep = 0, sources_rep = [],
      summary = \<lparr>totalSources = 1, successfulSources = 0, failedSources = 1,
                 dataFound = False\<rparr>\<rparr>"

definition foundReport :: report where
  "foundReport =
     \<lparr>query_rep = ''a@b.co'', searchType_rep = ''email'', timestamp_rep = 0,
      sources_rep = [foundEnvelope],
      summary = \<lparr>totalSources = 1, successfulSources = 1, failedSources = 0,
                 dataFound = True\<rparr>\<rparr>"

definition emptyReport :: report where
  "emptyReport =
     \<lparr>query_rep = ''q'', searchType_rep = ''email'', timestamp_rep = 0, sources_rep = [],
      summary = \<lparr>totalSources = 3, successfulSources = 0, failedSources = 0,
                 dataFound = False\<rparr>\<rparr>"

definition idleCollector :: collector where
  "idleCollector = \<lparr>cache_col = Map.empty, rateLimits = Map.empty, clock_col = 5000\<rparr>"




section \<open>Properties of the validation\<close>

lemma validateIntelligence_not_object:
  "\<not> isObject d \<Longrightarrow>
   validateIntelligence d = Inr \<lparr>valid = False, reason = Some ''Invalid data structure''\<rparr>"
  by (cases d) (simp_all add: validateIntelligence_def)

lemma validateIntelligence_object:
  "isObject d \<Longrightarrow>
   validateIntelligence d =
     (case collectionMethodOf d of
        None \<Rightarrow> Inr \<lparr>valid = False, reason = Some ''Missing collection method''\<rparr>
      | Some m \<Rightarrow>
          if truthy m then Inr \<lparr>valid = True, reason = None\<rparr>
          else Inr \<lparr>valid = False, reason = Some ''Missing collection method''\<rparr>)"
  by (cases d) (simp_all add: validateIntelligence_def field_def split: option.splits)

text \<open>
  Claim C10.  \<open>validateIntelligence(data)\<close> never throws.  It returns \<open>{valid: true}\<close>
  exactly when \<open>data\<close> is a non-null object whose \<open>collectionMethod\<close> field is present
  and truthy.  Otherwise it returns \<open>{valid: false}\<close> with the reason
  \<open>'Invalid data structure'\<close> when \<open>data\<close> is not an object and
  \<open>'Missing collection method'\<close> when it is an object whose \<open>collectionMethod\<close> is
  absent or falsy; so data lacking the field is never judged valid.
\<close>

theorem validateIntelligence_spec:
  "(validateIntelligence d = Inr \<lparr>valid = True, reason = None\<rparr>
      \<longleftrightarrow> isObject d \<and> (\<exists>m. collectionMethodOf d = Some m \<and> truthy m))
   \<and> (\<not> isObject d \<longrightarrow>
        validateIntelligence d = Inr \<lparr>valid = False, reason = Some ''Invalid data structure''\<rparr>)
   \<and> (isObject d \<and> \<not> (\<exists>m. collectionMethodOf d = Some m \<and> truthy m) \<longrightarrow>
        validateIntelligence d = Inr \<lparr>valid = False, reason = Some ''Missing collection method''\<rparr>)
   \<and> (collectionMethodOf d = None \<longrightarrow>
        (\<exists>r. validateIntelligence d = Inr \<lparr>valid = False, reason = Some r\<rparr>))"
proof (cases "isObject d")
  case False
  then show ?thesis
    by (simp add: validateIntelligence_not_object)
next
  case True
  then show ?thesis
    by (cases "collectionMethodOf d") (simp_all add: validateIntelligence_object)
qed

text \<open>
  Claim C10 at three inputs: the data of a DNS lookup, \<open>null\<close>, and the data
  \<open>getCertificateData\<close> returns when the logs hold no certificate.
\<close>

theorem validateIntelligence_spec_witness:
  "validateIntelligence (JObj [(''found'', JBool True), (''collectionMethod'', JStr ''DNS over HTTPS'')])
     = Inr \<lparr>valid = True, reason = None\<rparr>
   \<and> validateIntelligence JNull
     = Inr \<lparr>valid = False, reason = Some ''Invalid data structure''\<rparr>
   \<and> validateIntelligence (JObj [(''found'', JBool False), (''domain'', JStr ''example.com'')])
     = Inr \<lparr>valid = False, reason = Some ''Missing collection method''\<rparr>"
  using validateIntelligence_spec
          [of "JObj [(''found'', JBool True), (''collectionMethod'', JStr ''DNS over HTTPS'')]"]
        validateIntelligence_spec [of JNull]
        validateIntelligence_spec
          [of "JObj [(''found'', JBool False), (''domain'', JStr ''example.com'')]"]
  by simp

section \<open>Properties of the summary\<close>

lemma processResult_sources:
  "sources_rep (processResult r x) = sources_rep r @ successes [x]"
  by (cases x) (simp_all add: Let_def)

lemma processResult_summary:
  "summary (processResult r x) =
     (summary r)\<lparr>successfulSources := successfulSources (summary r) + (if fulfilledOk x then 1 else 0),
                failedSources := failedSources (summary r) + (if fulfilledOk x then 0 else 1),
                dataFound := (dataFound (summary r) \<or> foundData x)\<rparr>"
  by (cases x) (simp_all add: Let_def)

lemma successes_append: "successes (xs @ ys) = successes xs @ successes ys"
  by (induction xs rule: successes.induct) simp_all

lemma processResults_sources:
  "sources_rep (processResults r rs) = sources_rep r @ successes rs"
  unfolding processResults_def
proof (induction rs arbitrary: r)
  case Nil
  show ?case by simp
next
  case (Cons x rs)
  have "successes (x # rs) = successes [x] @ successes rs"
    using successes_append [of "[x]" rs] by simp
  then show ?case
    by (simp add: Cons.IH processResult_sources del: successes.simps)
qed

lemma processResults_summary:
  "summary (processResults r rs) =
     (summary r)\<lparr>successfulSources := successfulSources (summary r) + length (filter fulfilledOk rs),
                failedSources := failedSources (summary r) + length (filter (\<lambda>x. \<not> fulfilledOk x) rs),
                dataFound := (dataFound (summary r) \<or> (\<exists>x \<in> set rs. foundData x))\<rparr>"
  unfolding processResults_def
proof (induction rs arbitrary: r)
  case Nil
  show ?case by simp
next
  case (Cons x rs)
  show ?case
    by (auto simp add: Cons.IH processResult_summary)
qed

lemma length_successes: "length (successes rs) = length (filter fulfilledOk rs)"
  by (induction rs rule: successes.induct) simp_all

lemma set_successes: "set (successes rs) = {v. Fulfilled v \<in> set rs \<and> success v}"
  by (induction rs rule: successes.induct) auto

lemma processResults_preserves_found:
  assumes "dataFound (summary r)
           \<longleftrightarrow> (\<exists>e \<in> set (sources_rep r). success e \<and> truthy (field (data e) ''found''))"
  shows "dataFound (summary (processResults r rs))
         \<longleftrightarrow> (\<exists>e \<in> set (sources_rep (processResults r rs)).
               success e \<and> truthy (field (data e) ''found''))"
proof -
  have "(\<exists>x \<in> set rs. foundData x)
      \<longleftrightarrow> (\<exists>v \<in> set (successes rs). success v \<and> truthy (field (data v) ''found''))"
  proof
    assume "\<exists>x \<in> set rs. foundData x"
    then obtain x where x: "x \<in> set rs" "foundData x" by blast
    from x(2) obtain v where v: "x = Fulfilled v" "success v" "truthy (field (data v) ''found'')"
      by (cases x) simp_all
    with x(1) have "v \<in> set (successes rs)"
      by (simp add: set_successes)
    with v show "\<exists>v \<in> set (successes rs). success v \<and> truthy (field (data v) ''found'')"
      by blast
  next
    assume "\<exists>v \<in> set (successes rs). success v \<and> truthy (field (data v) ''found'')"
    then obtain v where "Fulfilled v \<in> set rs" "foundData (Fulfilled v)"
      by (force simp add: set_successes)
    then show "\<exists>x \<in> set rs. foundData x" by blast
  qed
  then show ?thesis
    using assms by (auto simp add: processResults_summary processResults_sources)
qed

lemma getSources_example_email:
  "getSourcesForType (exampleManager b) ''email'' = Inr [emailSource]"
  by (simp add: getSourcesForType_def exampleManager_def initialize_def loadSources_def
      newManager_def exampleCatalog_def emailSource_def)

lemma getSources_fallback: "getSourcesForType fallbackManager ''email'' = Inr []"
  by (simp add: getSourcesForType_def fallbackManager_def initialize_def loadSources_def
      newManager_def getFallbackSources_def)

lemma getSources_fallback_inherited:
  "getSourcesForType fallbackManager ''constructor''
     = Inl (TypeError ''Cannot read properties of undefined (reading 'filter')'')"
  by (simp add: getSourcesForType_def fallbackManager_def initialize_def loadSources_def
      newManager_def getFallbackSources_def objectPrototypeMembers_def)

lemma exampleManager_fields:
  "cache (exampleManager b) k = None"
  "activeRequests (exampleManager b) = {}"
  "clock (exampleManager b) = 0"
  "handlerCalls (exampleManager b) = []"
  by (simp_all add: exampleManager_def initialize_def newManager_def)

text \<open>The two halves of a run, and the run with nothing in between.\<close>

lemma beginSearch_dispatched:
  assumes "getSourcesForType (sourceManager a) ty = Inr srcs" and "srcs \<noteq> []"
  shows "beginSearch b a q ty
         = Inr (Dispatched
                 (a\<lparr>currentResults :=
                      Some \<lparr>query_rep = q, searchType_rep = ty,
                            timestamp_rep = clock (sourceManager a), sources_rep = [],
                            summary = \<lparr>totalSources = length srcs, successfulSources = 0,
                                       failedSources = 0, dataFound = False\<rparr>\<rparr>\<rparr>)
                 srcs)"
  using assms by (simp add: beginSearch_def)

lemma beginSearch_Dispatched_iff:
  assumes "beginSearch b a q ty = Inr (Dispatched a1 srcs)"
  shows "getSourcesForType (sourceManager a) ty = Inr srcs \<and> srcs \<noteq> []
         \<and> currentResults a1
             = Some \<lparr>query_rep = q, searchType_rep = ty,
                     timestamp_rep = clock (sourceManager a), sources_rep = [],
                     summary = \<lparr>totalSources = length srcs, successfulSources = 0,
                                failedSources = 0, dataFound = False\<rparr>\<rparr>"
  using assms by (auto simp add: beginSearch_def split: sum.splits if_splits)

lemma finishSearch_report:
  assumes "currentResults a = Some r"
  shows "reportAfter (finishSearch a results) = Some (processResults r results)"
  using assms by (simp add: finishSearch_def reportAfter_def)

lemma finishSearch_report_iff:
  assumes "reportAfter (finishSearch a results) = Some R"
  shows "\<exists>r. currentResults a = Some r \<and> R = processResults r results"
  using assms by (cases "currentResults a") (simp_all add: finishSearch_def reportAfter_def)

text \<open>The report a run over a non-empty list of sources leaves in \<open>currentResults\<close>.\<close>

lemma run_report:
  assumes "getSourcesForType (sourceManager a) ty = Inr srcs" and "srcs \<noteq> []"
    and "reportAfter (performOSINTSearch b f a q ty) = Some R"
  shows "R = processResults
               \<lparr>query_rep = q, searchType_rep = ty, timestamp_rep = clock (sourceManager a),
                sources_rep = [],
                summary = \<lparr>totalSources = length srcs,
                           successfulSources = 0, failedSources = 0, dataFound = False\<rparr>\<rparr>
               (map (\<lambda>(i, s). settle f i s) (enumerate 0 srcs))"
  using assms(3)
  by (simp add: performOSINTSearch_def beginSearch_dispatched [OF assms(1,2)]
      finishSearch_def reportAfter_def)

lemma failed_run:
  "reportAfter (performOSINTSearch RealIntelligence failedFanout
      (newAggregator (exampleManager RealIntelligence)) ''nobody'' ''email'') = Some failedReport"
proof -
  have g: "getSourcesForType (sourceManager (newAggregator (exampleManager RealIntelligence))) ''email''
           = Inr [emailSource]"
    by (simp add: newAggregator_def getSources_example_email)
  show ?thesis
    by (simp add: performOSINTSearch_def beginSearch_dispatched [OF g] finishSearch_def
        reportAfter_def processResults_def failedFanout_def failedEnvelope_def failedReport_def)
       (simp add: newAggregator_def exampleManager_fields)
qed

lemma found_run:
  "reportAfter (performOSINTSearch RealIntelligence foundFanout
      (newAggregator (exampleManager RealIntelligence)) ''a@b.co'' ''email'') = Some foundReport"
proof -
  have g: "getSourcesForType (sourceManager (newAggregator (exampleManager RealIntelligence))) ''email''
           = Inr [emailSource]"
    by (simp add: newAggregator_def getSources_example_email)
  show ?thesis
    by (simp add: performOSINTSearch_def beginSearch_dispatched [OF g] finishSearch_def
        reportAfter_def processResults_def foundFanout_def foundEnvelope_def foundReport_def
        field_def)
       (simp add: newAggregator_def exampleManager_fields)
qed

section \<open>Properties of the retry loops\<close>

lemma retryFrom_success:
  "attempt \<le> maxRetries \<Longrightarrow> fn s = (Inr v, s')
   \<Longrightarrow> retryFrom base wait fn maxRetries attempt s = (Inr (Some v), s', [Invoked])"
  by (simp add: retryFrom.simps)









section \<open>Properties of the aggregation run\<close>

lemma find_example_email:
  "findSourceById (exampleManager b) ''email_intelligence'' = Some emailSource"
  by (simp add: findSourceById_def getAllSources_def exampleManager_def initialize_def
      loadSources_def newManager_def exampleCatalog_def emailSource_def dnsSource_def
      certSource_def)

lemma find_example_dns:
  "findSourceById (exampleManager b) ''dns_analyzer'' = Some dnsSource"
  by (simp add: findSourceById_def getAllSources_def exampleManager_def initialize_def
      loadSources_def newManager_def exampleCatalog_def emailSource_def dnsSource_def
      certSource_def)


lemma failed_query:
  "fst (querySource failingWorld RealIntelligence (exampleManager RealIntelligence)
          ''email_intelligence'' ''nobody'' ''email'') = Inr failedEnvelope"
  by (simp add: querySource_def find_example_email exampleManager_fields
      performRealIntelligenceGathering_def Let_def
      failingWorld_def steadyWorld_def failedEnvelope_def emailSource_def)

lemma failed_query_with_retry:
  "fst (querySourceWithRetry failingWorld RealIntelligence (exampleManager RealIntelligence)
          ''email_intelligence'' ''nobody'' ''email'' 2) = Inr (Some failedEnvelope)"
proof -
  obtain m' where "querySource failingWorld RealIntelligence (exampleManager RealIntelligence)
        ''email_intelligence'' ''nobody'' ''email'' = (Inr failedEnvelope, m')"
    using failed_query by (metis prod.collapse)
  then show ?thesis
    by (simp add: querySourceWithRetry_def retryFrom_success)
qed

lemma begin_example:
  "beginSearch RealIntelligence (newAggregator (exampleManager RealIntelligence)) q ''email''
     = Inr (Dispatched (startedAggregator q) [emailSource])"
proof -
  have g: "getSourcesForType (sourceManager (newAggregator (exampleManager RealIntelligence))) ''email''
           = Inr [emailSource]"
    by (simp add: newAggregator_def getSources_example_email)
  show ?thesis
    unfolding beginSearch_dispatched [OF g, simplified]
    by (simp add: startedAggregator_def freshReport_def)
       (simp add: newAggregator_def exampleManager_fields)
qed

lemma finish_failed_example:
  "reportAfter (finishSearch (startedAggregator ''nobody'') [Fulfilled failedEnvelope])
     = Some failedReport"
  by (simp add: finishSearch_def reportAfter_def startedAggregator_def freshReport_def
      processResults_def failedEnvelope_def failedReport_def)

text \<open>
  Two runs that overlap.  The second search is started while the outcomes of the first
  are pending; both \<open>forEach\<close> loops then count into the report of the second, which
  ends with one source queried and two outcomes counted.
\<close>

lemma overlapping_runs_share_a_report:
  "beginSearch RealIntelligence (startedAggregator ''nobody'') ''a@b.co'' ''email''
     = Inr (Dispatched (startedAggregator ''a@b.co'') [emailSource])
   \<and> (\<exists>a3. finishSearch (startedAggregator ''a@b.co'') [Fulfilled failedEnvelope] = Inr a3
          \<and> reportAfter (finishSearch a3 [Fulfilled foundEnvelope])
              = Some \<lparr>query_rep = ''a@b.co'', searchType_rep = ''email'', timestamp_rep = 0,
                      sources_rep = [foundEnvelope],
                      summary = \<lparr>totalSources = 1, successfulSources = 1, failedSources = 1,
                                 dataFound = True\<rparr>\<rparr>)"
proof -
  have g: "getSourcesForType (sourceManager (startedAggregator ''nobody'')) ''email''
           = Inr [emailSource]"
    by (simp add: startedAggregator_def newAggregator_def getSources_example_email)
  have b: "beginSearch RealIntelligence (startedAggregator ''nobody'') ''a@b.co'' ''email''
     = Inr (Dispatched (startedAggregator ''a@b.co'') [emailSource])"
    unfolding beginSearch_dispatched [OF g, simplified]
    by (simp add: startedAggregator_def freshReport_def)
       (simp add: newAggregator_def exampleManager_fields)
  show ?thesis
    using b
    by (simp add: finishSearch_def reportAfter_def startedAggregator_def freshReport_def
        processResults_def failedEnvelope_def foundEnvelope_def field_def)
qed

text \<open>
  Claim C1, as stated, fails.  The email source of the example catalog is queried for
  \<open>nobody\<close>; its analysis throws, the manager turns that into an envelope with
  \<open>success = false\<close>, and the run counts it as failed without storing it:
  \<open>successfulSources + failedSources = 1\<close> while \<open>sources\<close> is empty.
\<close>

theorem report_counts_counterexample:
  "fst (querySourceWithRetry failingWorld RealIntelligence (exampleManager RealIntelligence)
          ''email_intelligence'' ''nobody'' ''email'' 2) = Inr (Some failedEnvelope)
   \<and> reportAfter (performOSINTSearch RealIntelligence failedFanout
         (newAggregator (exampleManager RealIntelligence)) ''nobody'' ''email'')
       = Some failedReport
   \<and> successfulSources (summary failedReport) + failedSources (summary failedReport) = 1
   \<and> length (sources_rep failedReport) = 0"
  using failed_query_with_retry failed_run by (simp add: failedReport_def)

text \<open>
  Claim C1, amended.  Take a run over a non-empty list of eligible sources that no other
  run overlaps: when its outcomes settle, one per source, \<open>this.currentResults\<close> is
  still the report the run assigned at its start.  For the report \<open>R\<close> it produces,
  \<open>successfulSources + failedSources\<close> equals \<open>totalSources\<close>, the number of sources
  queried, and \<open>successfulSources\<close> equals the length of \<open>R.sources\<close>, which holds the
  successful envelopes only.
\<close>

theorem report_counts_partition:
  assumes "beginSearch b a q ty = Inr (Dispatched a1 srcs)"
    and "currentResults a2 = currentResults a1"
    and "length results = length srcs"
    and "reportAfter (finishSearch a2 results) = Some R"
  shows "successfulSources (summary R) + failedSources (summary R) = totalSources (summary R)
     \<and> totalSources (summary R) = length srcs
     \<and> getSourcesForType (sourceManager a) ty = Inr srcs
     \<and> successfulSources (summary R) = length (sources_rep R)
     \<and> (\<forall>e \<in> set (sources_rep R). success e)"
proof -
  note bg = beginSearch_Dispatched_iff [OF assms(1)]
  obtain r where r: "currentResults a2 = Some r" "R = processResults r results"
    using finishSearch_report_iff [OF assms(4)] by blast
  have r0: "r = \<lparr>query_rep = q, searchType_rep = ty,
                 timestamp_rep = clock (sourceManager a), sources_rep = [],
                 summary = \<lparr>totalSources = length srcs, successfulSources = 0,
                            failedSources = 0, dataFound = False\<rparr>\<rparr>"
    using r(1) assms(2) bg by simp
  have part: "length (filter fulfilledOk results)
              + length (filter (\<lambda>x. \<not> fulfilledOk x) results) = length results"
    using sum_length_filter_compl [of fulfilledOk results] by simp
  have s1: "successfulSources (summary R) = length (filter fulfilledOk results)"
    and s2: "failedSources (summary R) = length (filter (\<lambda>x. \<not> fulfilledOk x) results)"
    and s3: "totalSources (summary R) = length srcs"
    by (simp_all add: r(2) r0 processResults_summary)
  have s4: "sources_rep R = successes results"
    by (simp add: r(2) r0 processResults_sources)
  show ?thesis
    using part assms(3) bg by (simp add: s1 s2 s3 s4 length_successes set_successes)
qed

text \<open>Claim C1, amended, at the run whose only source fails.\<close>

theorem report_counts_partition_witness:
  "beginSearch RealIntelligence (newAggregator (exampleManager RealIntelligence)) ''nobody'' ''email''
     = Inr (Dispatched (startedAggregator ''nobody'') [emailSource])
   \<and> length [Fulfilled failedEnvelope] = length [emailSource]
   \<and> reportAfter (finishSearch (startedAggregator ''nobody'') [Fulfilled failedEnvelope])
       = Some failedReport
   \<and> successfulSources (summary failedReport) + failedSources (summary failedReport)
       = totalSources (summary failedReport)
   \<and> totalSources (summary failedReport) = 1
   \<and> successfulSources (summary failedReport) = length (sources_rep failedReport)"
proof -
  have h3: "length [Fulfilled failedEnvelope] = length [emailSource]"
    by simp
  show ?thesis
    using begin_example [of "''nobody''"] finish_failed_example
      report_counts_partition [OF begin_example [of "''nobody''"] refl h3 finish_failed_example]
    by simp
qed

lemma truthy_JBool_iff: "v = JBool b \<Longrightarrow> truthy v \<longleftrightarrow> v = JBool True"
  by (cases b) simp_all

lemma found_boolean_reading:
  assumes main: "D \<longleftrightarrow> (\<exists>e \<in> S. P e \<and> truthy (g e))"
    and bools: "\<forall>e \<in> S. \<exists>b. g e = JBool b"
  shows "D \<longleftrightarrow> (\<exists>e \<in> S. P e \<and> g e = JBool True)"
proof -
  have pt: "truthy (g e) \<longleftrightarrow> g e = JBool True" if "e \<in> S" for e
  proof -
    from bools that have "\<exists>b. g e = JBool b" by (rule bspec)
    then obtain b where "g e = JBool b" ..
    then show ?thesis by (rule truthy_JBool_iff)
  qed
  have "(\<exists>e \<in> S. P e \<and> truthy (g e)) \<longleftrightarrow> (\<exists>e \<in> S. P e \<and> g e = JBool True)"
  proof (rule bex_cong [OF refl])
    fix e assume "e \<in> S"
    then show "(P e \<and> truthy (g e)) = (P e \<and> g e = JBool True)"
      by (simp only: pt)
  qed
  with main show ?thesis by (rule trans)
qed

text \<open>
  Claim C7.  For every report \<open>R\<close> a run produces, \<open>summary.dataFound\<close> is true exactly
  when some envelope of \<open>R.sources\<close> has \<open>success\<close> true and a truthy \<open>data.found\<close>;
  where the envelopes carry a boolean \<open>found\<close>, as every analysis of the sources
  returns, exactly when some envelope has \<open>success\<close> true and \<open>data.found\<close> equal to
  \<open>true\<close>.  The relation also survives overlapping runs: whenever it holds of the
  report in \<open>this.currentResults\<close>, as it does of a newly assigned one, it holds of the
  report after a \<open>forEach\<close> has counted its outcomes into it.
\<close>

theorem dataFound_iff_found_envelope:
  assumes "getSourcesForType (sourceManager a) ty = Inr srcs" and "srcs \<noteq> []"
    and "reportAfter (performOSINTSearch b f a q ty) = Some R"
  shows "(dataFound (summary R)
           \<longleftrightarrow> (\<exists>e \<in> set (sources_rep R). success e \<and> truthy (field (data e) ''found'')))
     \<and> ((\<forall>e \<in> set (sources_rep R). \<exists>b. field (data e) ''found'' = JBool b)
          \<longrightarrow> (dataFound (summary R)
                 \<longleftrightarrow> (\<exists>e \<in> set (sources_rep R). success e \<and> field (data e) ''found'' = JBool True)))
     \<and> (currentResults a2 = Some r
          \<and> (dataFound (summary r)
               \<longleftrightarrow> (\<exists>e \<in> set (sources_rep r). success e \<and> truthy (field (data e) ''found'')))
          \<and> reportAfter (finishSearch a2 results) = Some R'
          \<longrightarrow> (dataFound (summary R')
                 \<longleftrightarrow> (\<exists>e \<in> set (sources_rep R'). success e \<and> truthy (field (data e) ''found''))))"
proof -
  define r0 where "r0 = \<lparr>query_rep = q, searchType_rep = ty,
                timestamp_rep = clock (sourceManager a), sources_rep = [],
                summary = \<lparr>totalSources = length srcs,
                           successfulSources = 0, failedSources = 0, dataFound = False\<rparr>\<rparr>"
  define rs where "rs = map (\<lambda>(i, s). settle f i s) (enumerate 0 srcs)"
  have R: "R = processResults r0 rs"
    using run_report [OF assms] by (simp add: r0_def rs_def)
  have "dataFound (summary r0)
        \<longleftrightarrow> (\<exists>e \<in> set (sources_rep r0). success e \<and> truthy (field (data e) ''found''))"
    by (simp add: r0_def)
  then have main: "dataFound (summary R)
      \<longleftrightarrow> (\<exists>e \<in> set (sources_rep R). success e \<and> truthy (field (data e) ''found''))"
    unfolding R by (rule processResults_preserves_found)
  have second: "(\<forall>e \<in> set (sources_rep R). \<exists>b. field (data e) ''found'' = JBool b)
        \<longrightarrow> (dataFound (summary R)
               \<longleftrightarrow> (\<exists>e \<in> set (sources_rep R). success e \<and> field (data e) ''found'' = JBool True))"
  proof (rule impI)
    assume "\<forall>e \<in> set (sources_rep R). \<exists>b. field (data e) ''found'' = JBool b"
    with main show "dataFound (summary R)
        \<longleftrightarrow> (\<exists>e \<in> set (sources_rep R). success e \<and> field (data e) ''found'' = JBool True)"
      by (rule found_boolean_reading)
  qed
  have third: "currentResults a2 = Some r
          \<and> (dataFound (summary r)
               \<longleftrightarrow> (\<exists>e \<in> set (sources_rep r). success e \<and> truthy (field (data e) ''found'')))
          \<and> reportAfter (finishSearch a2 results) = Some R'
          \<longrightarrow> (dataFound (summary R')
                 \<longleftrightarrow> (\<exists>e \<in> set (sources_rep R'). success e \<and> truthy (field (data e) ''found'')))"
  proof (intro impI, elim conjE)
    assume cr: "currentResults a2 = Some r"
      and rel: "dataFound (summary r)
               \<longleftrightarrow> (\<exists>e \<in> set (sources_rep r). success e \<and> truthy (field (data e) ''found''))"
      and fin: "reportAfter (finishSearch a2 results) = Some R'"
    have "R' = processResults r results"
      using fin finishSearch_report [OF cr, of results] by simp
    with rel show "dataFound (summary R')
        \<longleftrightarrow> (\<exists>e \<in> set (sources_rep R'). success e \<and> truthy (field (data e) ''found''))"
      by (simp only: processResults_preserves_found)
  qed
  from main second third show ?thesis
    by (intro conjI)
qed

text \<open>Claim C7 at the run whose only source succeeds with data found.\<close>

theorem dataFound_iff_found_envelope_witness:
  "getSourcesForType (sourceManager (newAggregator (exampleManager RealIntelligence))) ''email''
     = Inr [emailSource]
   \<and> [emailSource] \<noteq> []
   \<and> reportAfter (performOSINTSearch RealIntelligence foundFanout
         (newAggregator (exampleManager RealIntelligence)) ''a@b.co'' ''email'')
       = Some foundReport
   \<and> dataFound (summary foundReport)
   \<and> sources_rep foundReport = [foundEnvelope]
   \<and> field (data foundEnvelope) ''found'' = JBool True
   \<and> (\<exists>e \<in> set (sources_rep foundReport). success e \<and> field (data e) ''found'' = JBool True)"
proof -
  have h: "getSourcesForType (sourceManager (newAggregator (exampleManager RealIntelligence))) ''email''
           = Inr [emailSource]"
    by (simp add: newAggregator_def getSources_example_email)
  have ne: "[emailSource] \<noteq> []"
    by simp
  have d: "dataFound (summary foundReport)"
    by (simp add: foundReport_def)
  have f: "field (data foundEnvelope) ''found'' = JBool True"
    by (simp add: foundEnvelope_def field_def)
  have b: "\<forall>e \<in> set (sources_rep foundReport). \<exists>b. field (data e) ''found'' = JBool b"
  proof
    fix e assume "e \<in> set (sources_rep foundReport)"
    then have "e = foundEnvelope"
      by (simp add: foundReport_def)
    with f show "\<exists>b. field (data e) ''found'' = JBool b"
      by (simp only: exI [of _ True])
  qed
  note c7 = dataFound_iff_found_envelope [OF h ne found_run]
  have "dataFound (summary foundReport)
        \<longleftrightarrow> (\<exists>e \<in> set (sources_rep foundReport). success e \<and> field (data e) ''found'' = JBool True)"
    using c7 [THEN conjunct2, THEN conjunct1] b by (rule mp)
  with d have "\<exists>e \<in> set (sources_rep foundReport). success e \<and> field (data e) ''found'' = JBool True"
    by (rule rev_iffD1)
  moreover have "sources_rep foundReport = [foundEnvelope]"
    by (simp add: foundReport_def)
  ultimately show ?thesis
    using h ne found_run d f by (intro conjI)
qed

text \<open>
  Claim C9.  The summary the aggregation computes from a sequence of settled outcomes
  is the same for every permutation of that sequence: \<open>totalSources\<close>,
  \<open>successfulSources\<close>, \<open>failedSources\<close> and \<open>dataFound\<close> depend on the outcomes
  collected, not on their order.
\<close>

theorem summary_permutation_invariant:
  assumes "mset rs = mset rs'"
  shows "summary (processResults r rs) = summary (processResults r rs')"
proof -
  have len: "length (filter P rs) = length (filter P rs')" for P
  proof -
    have "mset (filter P rs) = mset (filter P rs')"
      using assms by (simp only: mset_filter)
    then show ?thesis by (metis size_mset)
  qed
  have "set rs = set rs'"
    using assms by (metis set_mset_mset)
  then show ?thesis
    by (simp add: processResults_summary len)
qed

text \<open>Claim C9 at three outcomes and their reversal.\<close>

theorem summary_permutation_invariant_witness:
  "mset [Fulfilled foundEnvelope, Rejected (Error ''Source not found: x''), Fulfilled failedEnvelope]
     = mset [Fulfilled failedEnvelope, Rejected (Error ''Source not found: x''), Fulfilled foundEnvelope]
   \<and> summary (processResults emptyReport
        [Fulfilled foundEnvelope, Rejected (Error ''Source not found: x''), Fulfilled failedEnvelope])
     = summary (processResults emptyReport
        [Fulfilled failedEnvelope, Rejected (Error ''Source not found: x''), Fulfilled foundEnvelope])"
proof -
  have h: "mset [Fulfilled foundEnvelope, Rejected (Error ''Source not found: x''), Fulfilled failedEnvelope]
     = mset [Fulfilled failedEnvelope, Rejected (Error ''Source not found: x''), Fulfilled foundEnvelope]"
    by (simp add: add_mset_commute)
  show ?thesis
    using h summary_permutation_invariant [OF h, of emptyReport] by simp
qed

text \<open>
  A search type that names a member the \<open>categories\<close> object inherits: the run raises.
\<close>

lemma inherited_member_raises:
  "performOSINTSearch RealIntelligence foundFanout (newAggregator fallbackManager)
      ''example.com'' ''constructor''
     = Inl (TypeError ''Cannot read properties of undefined (reading 'filter')'')"
  by (simp add: performOSINTSearch_def beginSearch_def newAggregator_def
      getSources_fallback_inherited)

text \<open>
  Claim C2, as stated, fails.  On a freshly constructed aggregator whose catalog is the
  fallback, the run for \<open>("nobody@nowhere.tld", "email")\<close> returns without a report:
  \<open>currentResults\<close> stays the empty object, with no summary and no \<open>totalSources\<close>, and
  the error message is shown instead.
\<close>

theorem empty_category_counterexample:
  "performOSINTSearch RealIntelligence failedFanout (newAggregator fallbackManager)
      ''nobody@nowhere.tld'' ''email''
     = Inr ((newAggregator fallbackManager)
              \<lparr>searchResults := ErrorMessage ''No intelligence sources available for email searches''\<rparr>)
   \<and> currentResults ((newAggregator fallbackManager)
              \<lparr>searchResults := ErrorMessage ''No intelligence sources available for email searches''\<rparr>)
       = None"
  by (simp add: performOSINTSearch_def beginSearch_def newAggregator_def getSources_fallback
      showError_def noSourcesMessage_def)

text \<open>
  Claim C2, amended.  For every target string and search type for which the lookup of
  the eligible sources returns the empty list, as it does when the catalog has a
  category of that name with no enabled source, the run raises nothing and builds no
  report: it returns with \<open>currentResults\<close> and the rest of the aggregator as they
  were, showing the message that no sources are available for searches of that type.
\<close>

theorem empty_category_no_report:
  "(getSourcesForType (sourceManager a) ty = Inr []
      \<longrightarrow> performOSINTSearch b f a q ty
          = Inr (a\<lparr>searchResults := ErrorMessage (noSourcesMessage b ty)\<rparr>))
   \<and> (initialized (sourceManager a) \<and> sources (sourceManager a) = Some c
        \<and> map_of (categories c) ty = Some cat \<and> filter enabled (sources_cat cat) = []
      \<longrightarrow> performOSINTSearch b f a q ty
          = Inr (a\<lparr>searchResults := ErrorMessage (noSourcesMessage b ty)\<rparr>))
   \<and> currentResults (a\<lparr>searchResults := ErrorMessage (noSourcesMessage b ty)\<rparr>)
       = currentResults a"
proof -
  have one: "performOSINTSearch b f a q ty
          = Inr (a\<lparr>searchResults := ErrorMessage (noSourcesMessage b ty)\<rparr>)"
    if "getSourcesForType (sourceManager a) ty = Inr []"
    using that by (simp add: performOSINTSearch_def beginSearch_def showError_def)
  have "getSourcesForType (sourceManager a) ty = Inr []"
    if "initialized (sourceManager a)" "sources (sourceManager a) = Some c"
      "map_of (categories c) ty = Some cat" "filter enabled (sources_cat cat) = []"
    using that by (simp add: getSourcesForType_def)
  with one show ?thesis
    by simp
qed

text \<open>
  Claim C2, amended, at the fallback catalog, whose email category is empty, and the
  query \<open>nobody@nowhere.tld\<close>.
\<close>

theorem empty_category_no_report_witness:
  "getSourcesForType (sourceManager (newAggregator fallbackManager)) ''email'' = Inr []
   \<and> initialized (sourceManager (newAggregator fallbackManager))
   \<and> sources (sourceManager (newAggregator fallbackManager))
       = Some (getFallbackSources RealIntelligence)
   \<and> map_of (categories (getFallbackSources RealIntelligence)) ''email''
       = Some \<lparr>category_name = ''Email Intelligence'', sources_cat = []\<rparr>
   \<and> performOSINTSearch RealIntelligence foundFanout (newAggregator fallbackManager)
       ''nobody@nowhere.tld'' ''email''
     = Inr ((newAggregator fallbackManager)
         \<lparr>searchResults := ErrorMessage ''No intelligence sources available for email searches''\<rparr>)"
proof -
  have h: "getSourcesForType (sourceManager (newAggregator fallbackManager)) ''email'' = Inr []"
    by (simp add: newAggregator_def getSources_fallback)
  have i: "initialized (sourceManager (newAggregator fallbackManager))"
    "sources (sourceManager (newAggregator fallbackManager))
       = Some (getFallbackSources RealIntelligence)"
    by (simp_all add: newAggregator_def fallbackManager_def initialize_def loadSources_def)
  have c: "map_of (categories (getFallbackSources RealIntelligence)) ''email''
       = Some \<lparr>category_name = ''Email Intelligence'', sources_cat = []\<rparr>"
    by (simp add: getFallbackSources_def)
  show ?thesis
    using h i c
      empty_category_no_report [where a = "newAggregator fallbackManager" and ty = "''email''"
        and b = RealIntelligence and f = foundFanout and q = "''nobody@nowhere.tld''"
        and c = "getFallbackSources RealIntelligence"
        and cat = "\<lparr>category_name = ''Email Intelligence'', sources_cat = []\<rparr>"]
    by (simp add: noSourcesMessage_def)
qed

section \<open>Properties of the source manager\<close>



lemma findSourceById_Some_id: "findSourceById m sid = Some s \<Longrightarrow> source_id s = sid"
  by (auto simp add: findSourceById_def find_Some_iff)

lemma findSourceById_frame:
  "sources m' = sources m \<Longrightarrow> initialized m' = initialized m
   \<Longrightarrow> findSourceById m' sid = findSourceById m sid"
  by (simp add: findSourceById_def getAllSources_def)

lemma querySource_unknown:
  "findSourceById m sid = None
   \<Longrightarrow> querySource w b m sid q ty = (Inl (Error (''Source not found: '' @ sid)), m)"
  by (simp add: querySource_def)

lemma querySource_hit:
  "findSourceById m sid = Some s \<Longrightarrow> cache m (sid @ '':'' @ q) = Some e
   \<Longrightarrow> querySource w b m sid q ty = (Inr e, m)"
  by (simp add: querySource_def)

lemma querySource_miss:
  assumes "findSourceById m sid = Some s" and "cache m (sid @ '':'' @ q) = None"
    and "analyse w b (admitted w b m s) s q ty = (e, m3)"
  shows "querySource w b m sid q ty
         = (Inr e, m3\<lparr>cache := (cache m3)(sid @ '':'' @ q \<mapsto> e),
                      activeRequests := activeRequests m3 - {sid}\<rparr>)"
proof -
  have "source_id s = sid"
    using assms(1) by (rule findSourceById_Some_id)
  then show ?thesis
    using assms by (simp add: querySource_def admitted_def analyse_def Let_def)
qed

lemma analyse_frame:
  assumes "analyse w b m s q ty = (e, m')"
  shows "sources m' = sources m \<and> initialized m' = initialized m \<and> cache m' = cache m
         \<and> activeRequests m' = activeRequests m
         \<and> length (handlerCalls m') = length (handlerCalls m) + 1"
  using assms
  by (cases b)
     (auto simp add: analyse_def performSelfBuiltAnalysis_def performRealIntelligenceGathering_def
        Let_def delay_def split: sum.splits)

lemma admitted_frame:
  "sources (admitted w b m s) = sources m \<and> initialized (admitted w b m s) = initialized m
   \<and> cache (admitted w b m s) = cache m \<and> handlerCalls (admitted w b m s) = handlerCalls m"
  by (simp add: admitted_def Let_def delay_def)

text \<open>What a call that returns an envelope leaves behind.\<close>

lemma querySource_returns:
  assumes "querySource w b m sid q ty = (Inr e, m1)"
  shows "findSourceById m1 sid = findSourceById m sid \<and> findSourceById m sid \<noteq> None
         \<and> cache m1 (sid @ '':'' @ q) = Some e
         \<and> length (handlerCalls m1) \<le> length (handlerCalls m) + 1"
proof (cases "findSourceById m sid")
  case None
  then show ?thesis
    using assms by (simp add: querySource_unknown)
next
  case (Some s)
  show ?thesis
  proof (cases "cache m (sid @ '':'' @ q)")
    case hit: (Some c)
    then show ?thesis
      using assms Some by (simp add: querySource_hit)
  next
    case None
    obtain e' m3 where a: "analyse w b (admitted w b m s) s q ty = (e', m3)"
      by (cases "analyse w b (admitted w b m s) s q ty") blast
    have m1: "e = e'" "m1 = m3\<lparr>cache := (cache m3)(sid @ '':'' @ q \<mapsto> e'),
                      activeRequests := activeRequests m3 - {sid}\<rparr>"
      using assms querySource_miss [OF Some None a] by auto
    have fr: "sources m3 = sources m" "initialized m3 = initialized m"
      "length (handlerCalls m3) = length (handlerCalls m) + 1"
      using analyse_frame [OF a] admitted_frame [of w b m s] by simp_all
    have "findSourceById m1 sid = findSourceById m sid"
      by (rule findSourceById_frame) (simp_all add: m1 fr)
    then show ?thesis
      using Some by (simp add: m1 fr)
  qed
qed

text \<open>
  The same pair asked again, at any clock reading and under any world: the cached
  envelope, and a manager left as it was.
\<close>

lemma querySource_again:
  assumes "querySource w b m sid q ty = (Inr e, m1)"
  shows "querySource w' b (m1\<lparr>clock := t\<rparr>) sid q ty' = (Inr e, m1\<lparr>clock := t\<rparr>)"
proof -
  note r = querySource_returns [OF assms]
  obtain s where s: "findSourceById m1 sid = Some s"
    using r by auto
  have "findSourceById (m1\<lparr>clock := t\<rparr>) sid = Some s"
    using s findSourceById_frame [of "m1\<lparr>clock := t\<rparr>" m1 sid] by simp
  moreover have "cache (m1\<lparr>clock := t\<rparr>) (sid @ '':'' @ q) = Some e"
    using r by simp
  ultimately show ?thesis
    by (simp add: querySource_hit)
qed

text \<open>
  The analysis of a cache miss is dispatched at \<open>startTime\<close>; what becomes of an error
  depends on whether the analysis lets it through.
\<close>

lemma admitted_clock:
  "clock (admitted w b m s)
     = (if source_id s \<in> activeRequests m then timer w (inFlightDelay b s) (clock m)
        else clock m)"
  by (simp add: admitted_def Let_def delay_def)

lemma analyse_dispatch:
  assumes "analyse w b (admitted w b m s) s q ty = (e, m')"
  shows "handlerCalls m' = handlerCalls m @ [(source_id s, q, startTime w b m s)]"
  using assms admitted_frame [of w b m s]
  by (cases b)
     (auto simp add: analyse_def performSelfBuiltAnalysis_def performRealIntelligenceGathering_def
        Let_def delay_def startTime_def admitted_clock split: sum.splits)





text \<open>A cache miss for a source with no request in flight.\<close>

lemma querySource_idle_miss:
  assumes "findSourceById m sid = Some s" and "cache m (sid @ '':'' @ q) = None"
    and "sid \<notin> activeRequests m"
  shows "handlerCalls (snd (querySource w b m sid q ty))
           = handlerCalls m @
             [(sid, q, case b of SelfBuilt \<Rightarrow> timer w (300 + int (jitter w (clock m) mod 700)) (clock m)
                       | RealIntelligence \<Rightarrow> clock m)]"
    and "clock (snd (querySource w b m sid q ty))
           = (let t0 = (case b of SelfBuilt \<Rightarrow> timer w (300 + int (jitter w (clock m) mod 700)) (clock m)
                       | RealIntelligence \<Rightarrow> clock m)
              in t0 + int (latency w sid q t0))"
    and "k \<noteq> sid @ '':'' @ q \<Longrightarrow> cache (snd (querySource w b m sid q ty)) k = cache m k"
    and "activeRequests (snd (querySource w b m sid q ty)) = activeRequests m - {sid}"
    and "findSourceById (snd (querySource w b m sid q ty)) sid' = findSourceById m sid'"
proof -
  have sid: "source_id s = sid"
    using assms(1) by (rule findSourceById_Some_id)
  obtain e m3 where a: "analyse w b (admitted w b m s) s q ty = (e, m3)"
    by (cases "analyse w b (admitted w b m s) s q ty") blast
  note qs = querySource_miss [OF assms(1,2) a]
  have ad: "admitted w b m s = m\<lparr>activeRequests := insert sid (activeRequests m)\<rparr>"
    using assms(3) sid by (simp add: admitted_def Let_def)
  show "handlerCalls (snd (querySource w b m sid q ty))
           = handlerCalls m @
             [(sid, q, case b of SelfBuilt \<Rightarrow> timer w (300 + int (jitter w (clock m) mod 700)) (clock m)
                       | RealIntelligence \<Rightarrow> clock m)]"
    using a unfolding qs ad
    by (cases b)
       (auto simp add: analyse_def performSelfBuiltAnalysis_def performRealIntelligenceGathering_def
          Let_def delay_def sid split: sum.splits)
  show "clock (snd (querySource w b m sid q ty))
           = (let t0 = (case b of SelfBuilt \<Rightarrow> timer w (300 + int (jitter w (clock m) mod 700)) (clock m)
                       | RealIntelligence \<Rightarrow> clock m)
              in t0 + int (latency w sid q t0))"
    using a unfolding qs ad
    by (cases b)
       (auto simp add: analyse_def performSelfBuiltAnalysis_def performRealIntelligenceGathering_def
          Let_def delay_def sid split: sum.splits)
  have fr: "sources m3 = sources m" "initialized m3 = initialized m" "cache m3 = cache m"
    "activeRequests m3 = insert sid (activeRequests m)"
    using analyse_frame [OF a] by (simp_all add: ad)
  show "cache (snd (querySource w b m sid q ty)) k = cache m k" if "k \<noteq> sid @ '':'' @ q"
    using that unfolding qs by (simp add: fr)
  show "activeRequests (snd (querySource w b m sid q ty)) = activeRequests m - {sid}"
    unfolding qs by (simp add: fr)
  show "findSourceById (snd (querySource w b m sid q ty)) sid' = findSourceById m sid'"
    unfolding qs by (rule findSourceById_frame) (simp_all add: fr)
qed

lemma first_query:
  "querySource okWorld RealIntelligence (exampleManager RealIntelligence)
     ''email_intelligence'' ''a@b.co'' ''email'' = (Inr foundEnvelope, cachedManager)"
proof -
  have "fst (querySource okWorld RealIntelligence (exampleManager RealIntelligence)
            ''email_intelligence'' ''a@b.co'' ''email'') = Inr foundEnvelope"
    by (simp add: querySource_def find_example_email exampleManager_fields
      performRealIntelligenceGathering_def Let_def
      okWorld_def steadyWorld_def foundEnvelope_def emailSource_def)
  then show ?thesis
    unfolding cachedManager_def by (metis prod.collapse)
qed

lemma cachedManager_calls:
  "handlerCalls cachedManager = [(''email_intelligence'', ''a@b.co'', 0)]"
  using querySource_idle_miss(1) [where m = "exampleManager RealIntelligence"
      and sid = "''email_intelligence''" and q = "''a@b.co''" and w = okWorld
      and b = RealIntelligence and ty = "''email''", OF find_example_email]
  by (simp add: cachedManager_def exampleManager_fields)






text \<open>
  Claim C8.  When a call of \<open>querySource\<close> for a pair (sourceId, query) has returned an
  envelope, the next call for the same pair, at any later clock reading and so within
  the TTL window, returns the identical envelope and leaves the manager as it was: the
  clock is not advanced by a wait and no analysis is dispatched.  Over the two calls the
  analysis is dispatched at most once.
\<close>

theorem querySource_cache_idempotent:
  assumes "querySource w b m sid q ty = (Inr e, m1)"
  shows "querySource w' b (m1\<lparr>clock := t\<rparr>) sid q ty' = (Inr e, m1\<lparr>clock := t\<rparr>)
         \<and> handlerCalls (snd (querySource w' b (m1\<lparr>clock := t\<rparr>) sid q ty')) = handlerCalls m1
         \<and> length (handlerCalls m1) \<le> length (handlerCalls m) + 1"
  using querySource_again [OF assms, of w' t ty'] querySource_returns [OF assms]
  by simp

text \<open>Claim C8 at the example manager, the second call one second after the first.\<close>

theorem querySource_cache_idempotent_witness:
  "querySource okWorld RealIntelligence (exampleManager RealIntelligence)
     ''email_intelligence'' ''a@b.co'' ''email'' = (Inr foundEnvelope, cachedManager)
   \<and> querySource failingWorld RealIntelligence (cachedManager\<lparr>clock := 1005\<rparr>)
       ''email_intelligence'' ''a@b.co'' ''email''
     = (Inr foundEnvelope, cachedManager\<lparr>clock := 1005\<rparr>)
   \<and> length (handlerCalls cachedManager) \<le> 1"
  using first_query
    querySource_cache_idempotent [OF first_query, of failingWorld 1005 "''email''"]
  by (simp add: exampleManager_fields)

text \<open>
  Claim C3, as stated, fails.  The email source is queried at time 0 and its envelope
  cached at time 5.  Two hours later the same query returns that envelope again and
  the analysis has still been dispatched once only, at time 0.
\<close>

theorem cache_expiry_counterexample:
  "querySource okWorld RealIntelligence (exampleManager RealIntelligence)
     ''email_intelligence'' ''a@b.co'' ''email'' = (Inr foundEnvelope, cachedManager)
   \<and> querySource okWorld RealIntelligence (cachedManager\<lparr>clock := 7200005\<rparr>)
       ''email_intelligence'' ''a@b.co'' ''email''
     = (Inr foundEnvelope, cachedManager\<lparr>clock := 7200005\<rparr>)
   \<and> handlerCalls (cachedManager\<lparr>clock := 7200005\<rparr>) = [(''email_intelligence'', ''a@b.co'', 0)]
   \<and> 7200005 - timestamp foundEnvelope = 2 * 3600000"
  using first_query querySource_again [OF first_query, of okWorld 7200005 "''email''"]
  by (simp add: cachedManager_calls) (simp add: foundEnvelope_def)

lemma getCached_after_setCached:
  "getCached ((setCached c k d)\<lparr>clock_col := t\<rparr>) k
     = (if t - clock_col c < 3600000 then d else JNull)"
  by (simp add: getCached_def setCached_def)

text \<open>
  Claim C3, amended.  The TTL of one hour belongs to the collector's cache:
  \<open>getCached\<close> returns what \<open>setCached\<close> stored while less than 3600000 ms have passed
  since, and \<open>null\<close>, as for an absent key, from then on.  The cache of \<open>querySource\<close>
  has no expiry: a query repeated for the same (sourceId, query) returns the cached
  envelope without dispatching the analysis, however much time has passed.
\<close>

theorem cache_ttl_collector_only:
  "getCached ((setCached c k d)\<lparr>clock_col := t\<rparr>) k
     = (if t - clock_col c < 3600000 then d else JNull)
   \<and> (querySource w b m sid q ty = (Inr e, m1)
        \<longrightarrow> querySource w' b (m1\<lparr>clock := t'\<rparr>) sid q ty' = (Inr e, m1\<lparr>clock := t'\<rparr>))"
  using querySource_again [of w b m sid q ty e m1 w' t' ty']
  by (simp add: getCached_after_setCached)

text \<open>
  Claim C3, amended, at the collector one hour after a \<open>setCached\<close> and at the example
  manager two hours after the first query.
\<close>

theorem cache_ttl_collector_only_witness:
  "getCached ((setCached idleCollector ''cert_example.com'' (JStr ''certificates''))
                \<lparr>clock_col := 5000 + 3600000\<rparr>) ''cert_example.com'' = JNull
   \<and> getCached ((setCached idleCollector ''cert_example.com'' (JStr ''certificates''))
                \<lparr>clock_col := 5000 + 3599999\<rparr>) ''cert_example.com'' = JStr ''certificates''
   \<and> querySource okWorld RealIntelligence (exampleManager RealIntelligence)
       ''email_intelligence'' ''a@b.co'' ''email'' = (Inr foundEnvelope, cachedManager)
   \<and> querySource okWorld RealIntelligence (cachedManager\<lparr>clock := 7200005\<rparr>)
       ''email_intelligence'' ''a@b.co'' ''email''
     = (Inr foundEnvelope, cachedManager\<lparr>clock := 7200005\<rparr>)"
  using first_query
    cache_ttl_collector_only [where c = idleCollector and k = "''cert_example.com''"
      and d = "JStr ''certificates''" and t = "5000 + 3600000" and w = okWorld
      and b = RealIntelligence and m = "exampleManager RealIntelligence"
      and sid = "''email_intelligence''" and q = "''a@b.co''" and ty = "''email''"
      and e = foundEnvelope and ?m1.0 = cachedManager and w' = okWorld and t' = 7200005
      and ty' = "''email''"]
    cache_ttl_collector_only [where c = idleCollector and k = "''cert_example.com''"
      and d = "JStr ''certificates''" and t = "5000 + 3599999" and w = okWorld
      and b = RealIntelligence and m = "exampleManager RealIntelligence"
      and sid = "''email_intelligence''" and q = "''a@b.co''" and ty = "''email''"
      and e = foundEnvelope and ?m1.0 = cachedManager and w' = okWorld and t' = 7200005
      and ty' = "''email''"]
  by (simp add: idleCollector_def)

section \<open>Properties of the rate limiting\<close>

lemma rateLimit_col_grant:
  "rateLimits (rateLimit_col w c s T) s = Some (clock_col (rateLimit_col w c s T))"
  by (simp add: rateLimit_col_def rateLimitRecord_def split: option.splits)

lemma rateLimit_col_clock:
  "clock_col (rateLimit_col w c s T)
     = (let last = (case rateLimits c s of None \<Rightarrow> 0 | Some t \<Rightarrow> t) in
        if clock_col c - last < T then timer w (T - (clock_col c - last)) (clock_col c)
        else clock_col c)"
  by (simp add: rateLimit_col_def rateLimitWait_def rateLimitRecord_def Let_def delay_col_def)

lemma rateLimit_col_spacing:
  assumes "rateLimits c1 s = Some t1"
  shows "t1 + T \<le> clock_col (rateLimit_col w c1 s T)"
  using assms by (simp add: rateLimit_col_clock timer_def Let_def)

lemma rateLimit_col_other:
  "s' \<noteq> s \<Longrightarrow>
   clock_col (rateLimit_col w (c\<lparr>rateLimits := (rateLimits c)(s := x)\<rparr>) s' T)
     = clock_col (rateLimit_col w c s' T)"
  by (simp add: rateLimit_col_clock Let_def)

text \<open>
  Two callers that overlap.  Both read the grant recorded at 5000 ms before either has
  recorded its own, both wait 1000 ms, and both are granted at 6000 ms.
\<close>

lemma overlapping_callers_granted_together:
  "rateLimits (rateLimit_col okWorld idleCollector ''ip'' 1000) ''ip'' = Some 5000
   \<and> rateLimitWait (rateLimit_col okWorld idleCollector ''ip'' 1000) ''ip'' 1000 = Some 1000
   \<and> rateLimits (rateLimitRecord
         (delay_col okWorld 1000 (rateLimit_col okWorld idleCollector ''ip'' 1000)) ''ip'') ''ip''
       = Some 6000
   \<and> rateLimits (rateLimitRecord (rateLimitRecord
         (delay_col okWorld 1000 (rateLimit_col okWorld idleCollector ''ip'' 1000)) ''ip'') ''ip'')
        ''ip''
       = Some 6000"
  by (simp add: rateLimit_col_def rateLimitWait_def rateLimitRecord_def delay_col_def
      idleCollector_def timer_def okWorld_def steadyWorld_def Let_def)

lemma querySource_dispatch:
  assumes "findSourceById m sid = Some s" and "cache m (sid @ '':'' @ q) = None"
  shows "handlerCalls (snd (querySource w b m sid q ty))
         = handlerCalls m @ [(sid, q, startTime w b m s)]"
proof -
  have sid: "source_id s = sid"
    using assms(1) by (rule findSourceById_Some_id)
  obtain e m3 where a: "analyse w b (admitted w b m s) s q ty = (e, m3)"
    by (cases "analyse w b (admitted w b m s) s q ty") blast
  show ?thesis
    unfolding querySource_miss [OF assms a] using analyse_dispatch [OF a] sid by simp
qed

lemma timer_at_least: "t + ms \<le> timer w ms t"
  by (simp add: timer_def)

text \<open>
  Claim C4, as stated, fails.  In the self-built build the DNS source has
  \<open>rateLimit = 1000\<close>.  Two queries for different domains, the second issued when the
  first has returned, reach its analysis at 300 ms and at 605 ms: 305 ms apart.
\<close>

theorem rate_limit_counterexample:
  "handlerCalls (snd (querySource okWorld SelfBuilt
              (snd (querySource okWorld SelfBuilt (exampleManager SelfBuilt)
                      ''dns_analyzer'' ''a.com'' ''domain''))
              ''dns_analyzer'' ''b.com'' ''domain''))
     = [(''dns_analyzer'', ''a.com'', 300), (''dns_analyzer'', ''b.com'', 605)]
   \<and> findSourceById (exampleManager SelfBuilt) ''dns_analyzer'' = Some dnsSource
   \<and> inFlightDelay SelfBuilt dnsSource = 1000"
proof -
  let ?m0 = "exampleManager SelfBuilt"
  let ?m1 = "snd (querySource okWorld SelfBuilt ?m0 ''dns_analyzer'' ''a.com'' ''domain'')"
  note one = querySource_idle_miss [where m = ?m0 and sid = "''dns_analyzer''" and q = "''a.com''"
      and w = okWorld and b = SelfBuilt and ty = "''domain''", OF find_example_dns]
  have h1: "handlerCalls ?m1 = [(''dns_analyzer'', ''a.com'', 300)]"
    and c1: "clock ?m1 = 305"
    and k1: "cache ?m1 (''dns_analyzer'' @ '':'' @ ''b.com'') = None"
    and a1: "''dns_analyzer'' \<notin> activeRequests ?m1"
    and f1: "findSourceById ?m1 ''dns_analyzer'' = findSourceById ?m0 ''dns_analyzer''"
    using one by (simp_all add: exampleManager_fields okWorld_def steadyWorld_def timer_def)
  note two = querySource_idle_miss [where m = ?m1 and sid = "''dns_analyzer''" and q = "''b.com''"
      and w = okWorld and b = SelfBuilt and ty = "''domain''"]
  have f1': "findSourceById ?m1 ''dns_analyzer'' = Some dnsSource"
    using f1 find_example_dns by simp
  have t2: "timer okWorld (300 + int (jitter okWorld 305 mod 700)) 305 = 605"
    by (simp add: okWorld_def steadyWorld_def timer_def)
  have "handlerCalls (snd (querySource okWorld SelfBuilt ?m1 ''dns_analyzer'' ''b.com'' ''domain''))
     = [(''dns_analyzer'', ''a.com'', 300), (''dns_analyzer'', ''b.com'', 605)]"
    using two(1) [OF f1' k1 a1] by (simp add: h1 c1 t2)
  then show ?thesis
    by (simp add: find_example_dns inFlightDelay_def dnsSource_def)
qed

text \<open>
  Claim C4, amended.  The minimum spacing is kept by the collector's
  \<open>rateLimit(service, T)\<close> between sequential calls, each running its wait undisturbed
  and the second starting once the first has recorded its grant: a grant is recorded at
  the time it is given, the next grant to the same service comes at least \<open>T\<close> ms
  after the recorded one, and what is recorded for one service does not delay a grant
  to another.  \<open>querySource\<close> keeps no spacing between sequential queries: for an
  uncached query to a source with no request of its own in flight, whatever is in flight
  for other sources, the analysis starts at once (after the simulated processing time
  alone in the self-built build).  While a request to the same source is in flight it
  first waits, for \<open>source.rateLimit || 1000\<close> ms in the self-built build and for
  2000 ms in the other, and then starts.
\<close>

theorem rate_limit_spacing:
  "rateLimits (rateLimit_col w c s T) s = Some (clock_col (rateLimit_col w c s T))
   \<and> (rateLimits c1 s = rateLimits (rateLimit_col w c s T) s
       \<longrightarrow> clock_col (rateLimit_col w c s T) + T \<le> clock_col (rateLimit_col w' c1 s T))
   \<and> (s' \<noteq> s
       \<longrightarrow> clock_col (rateLimit_col w (c\<lparr>rateLimits := (rateLimits c)(s := x)\<rparr>) s' T')
           = clock_col (rateLimit_col w c s' T'))
   \<and> (findSourceById m sid = Some src \<and> cache m (sid @ '':'' @ q) = None
        \<and> sid \<notin> activeRequests m
       \<longrightarrow> handlerCalls (snd (querySource w b m sid q ty))
           = handlerCalls m @
             [(sid, q, case b of
                         SelfBuilt \<Rightarrow> timer w (300 + int (jitter w (clock m) mod 700)) (clock m)
                       | RealIntelligence \<Rightarrow> clock m)])
   \<and> (findSourceById m sid = Some src \<and> cache m (sid @ '':'' @ q) = None
        \<and> sid \<in> activeRequests m
       \<longrightarrow> handlerCalls (snd (querySource w b m sid q ty))
           = handlerCalls m @
             [(sid, q, case b of
                         SelfBuilt \<Rightarrow>
                           timer w (300 + int (jitter w (timer w (inFlightDelay b src) (clock m))
                                                 mod 700))
                             (timer w (inFlightDelay b src) (clock m))
                       | RealIntelligence \<Rightarrow> timer w (inFlightDelay b src) (clock m))])
   \<and> clock m + inFlightDelay b src \<le> timer w (inFlightDelay b src) (clock m)
   \<and> inFlightDelay RealIntelligence src = 2000
   \<and> inFlightDelay SelfBuilt src
       = (case rateLimit src of None \<Rightarrow> 1000 | Some r \<Rightarrow> if r = 0 then 1000 else r)"
proof -
  have idle: "handlerCalls (snd (querySource w b m sid q ty))
           = handlerCalls m @
             [(sid, q, case b of
                         SelfBuilt \<Rightarrow> timer w (300 + int (jitter w (clock m) mod 700)) (clock m)
                       | RealIntelligence \<Rightarrow> clock m)]"
    if "findSourceById m sid = Some src" "cache m (sid @ '':'' @ q) = None"
      "sid \<notin> activeRequests m"
  proof -
    have "source_id src = sid"
      using that(1) by (rule findSourceById_Some_id)
    then show ?thesis
      using querySource_dispatch [OF that(1,2), of w b ty] that(3)
      by (simp add: startTime_def Let_def)
  qed
  have busy: "handlerCalls (snd (querySource w b m sid q ty))
           = handlerCalls m @
             [(sid, q, case b of
                         SelfBuilt \<Rightarrow>
                           timer w (300 + int (jitter w (timer w (inFlightDelay b src) (clock m))
                                                 mod 700))
                             (timer w (inFlightDelay b src) (clock m))
                       | RealIntelligence \<Rightarrow> timer w (inFlightDelay b src) (clock m))]"
    if "findSourceById m sid = Some src" "cache m (sid @ '':'' @ q) = None"
      "sid \<in> activeRequests m"
  proof -
    have "source_id src = sid"
      using that(1) by (rule findSourceById_Some_id)
    then show ?thesis
      using querySource_dispatch [OF that(1,2), of w b ty] that(3)
      by (simp add: startTime_def Let_def)
  qed
  have d: "inFlightDelay RealIntelligence src = 2000"
    "inFlightDelay SelfBuilt src
       = (case rateLimit src of None \<Rightarrow> 1000 | Some r \<Rightarrow> if r = 0 then 1000 else r)"
    by (simp_all add: inFlightDelay_def)
  show ?thesis
    using rateLimit_col_grant [of w c s T]
      rateLimit_col_spacing [of c1 s "clock_col (rateLimit_col w c s T)" T w']
      rateLimit_col_other [of s' s w c x T']
      idle busy d timer_at_least [of "clock m" "inFlightDelay b src" w]
    by simp
qed

text \<open>
  Claim C4, amended, at a collector granting the service \<open>ip\<close> twice in a row with
  \<open>T = 1000\<close>, at the service \<open>dns\<close> beside it, at the first query of the example
  manager, and at a query to the DNS source while another is in flight.
\<close>

theorem rate_limit_spacing_witness:
  "rateLimits (rateLimit_col okWorld idleCollector ''ip'' 1000) ''ip'' = Some 5000
   \<and> 5000 + 1000
       \<le> clock_col (rateLimit_col okWorld (rateLimit_col okWorld idleCollector ''ip'' 1000) ''ip'' 1000)
   \<and> ''dns'' \<noteq> ''ip''
   \<and> clock_col (rateLimit_col okWorld
         (idleCollector\<lparr>rateLimits := (rateLimits idleCollector)(''ip'' := Some 5000)\<rparr>) ''dns'' 100)
       = clock_col (rateLimit_col okWorld idleCollector ''dns'' 100)
   \<and> findSourceById (exampleManager RealIntelligence) ''email_intelligence'' = Some emailSource
   \<and> cache (exampleManager RealIntelligence) (''email_intelligence'' @ '':'' @ ''a@b.co'') = None
   \<and> ''email_intelligence'' \<notin> activeRequests (exampleManager RealIntelligence)
   \<and> handlerCalls (snd (querySource okWorld RealIntelligence (exampleManager RealIntelligence)
                           ''email_intelligence'' ''a@b.co'' ''email''))
       = [(''email_intelligence'', ''a@b.co'', 0)]
   \<and> findSourceById ((exampleManager SelfBuilt)\<lparr>activeRequests := {''dns_analyzer''}\<rparr>)
        ''dns_analyzer'' = Some dnsSource
   \<and> cache ((exampleManager SelfBuilt)\<lparr>activeRequests := {''dns_analyzer''}\<rparr>)
        (''dns_analyzer'' @ '':'' @ ''b.com'') = None
   \<and> ''dns_analyzer'' \<in> activeRequests ((exampleManager SelfBuilt)\<lparr>activeRequests := {''dns_analyzer''}\<rparr>)
   \<and> handlerCalls (snd (querySource okWorld SelfBuilt
                           ((exampleManager SelfBuilt)\<lparr>activeRequests := {''dns_analyzer''}\<rparr>)
                           ''dns_analyzer'' ''b.com'' ''domain''))
       = [(''dns_analyzer'', ''b.com'', 1300)]"
proof -
  have g: "clock_col (rateLimit_col okWorld idleCollector ''ip'' 1000) = 5000"
    by (simp add: rateLimit_col_clock idleCollector_def)
  let ?busy = "(exampleManager SelfBuilt)\<lparr>activeRequests := {''dns_analyzer''}\<rparr>"
  have fb: "findSourceById ?busy ''dns_analyzer'' = Some dnsSource"
    using findSourceById_frame [of ?busy "exampleManager SelfBuilt" "''dns_analyzer''"]
      find_example_dns [of SelfBuilt] by simp
  have t: "timer okWorld (inFlightDelay SelfBuilt dnsSource) 0 = 1000"
    "timer okWorld (300 + int (jitter okWorld 1000 mod 700)) 1000 = 1300"
    by (simp_all add: okWorld_def steadyWorld_def timer_def inFlightDelay_def dnsSource_def)
  note first = rate_limit_spacing [where w = okWorld and c = idleCollector and s = "''ip''"
        and T = 1000 and ?c1.0 = "rateLimit_col okWorld idleCollector ''ip'' 1000" and w' = okWorld
        and s' = "''dns''" and x = "Some 5000" and T' = 100
        and m = "exampleManager RealIntelligence" and sid = "''email_intelligence''"
        and src = emailSource and q = "''a@b.co''" and b = RealIntelligence and ty = "''email''"]
  note second = rate_limit_spacing [where w = okWorld and c = idleCollector and s = "''ip''"
        and T = 1000 and ?c1.0 = "rateLimit_col okWorld idleCollector ''ip'' 1000" and w' = okWorld
        and s' = "''dns''" and x = "Some 5000" and T' = 100
        and m = ?busy and sid = "''dns_analyzer''"
        and src = dnsSource and q = "''b.com''" and b = SelfBuilt and ty = "''domain''"]
  have B: "handlerCalls (snd (querySource okWorld SelfBuilt ?busy ''dns_analyzer'' ''b.com'' ''domain''))
       = [(''dns_analyzer'', ''b.com'', 1300)]"
    using second [THEN conjunct2, THEN conjunct2, THEN conjunct2, THEN conjunct2, THEN conjunct1] fb
    by (simp add: exampleManager_fields t)
  show ?thesis
    using g find_example_email [of RealIntelligence] first fb B
    by (simp add: exampleManager_fields)
qed


end
